theory Spec2Isabelle
  imports Complex_Main
begin

section \<open>Time and calendar days\<close>

text \<open>
  An instant (a JavaScript \<open>Date\<close>) is its number of milliseconds since the epoch,
  an integer. The calendar-day string \<open>date.toISOString().split('T')[0]\<close> names the UTC
  day of the instant; the model writes that string as the number of the day (days since
  the epoch), which is in bijection with the valid \<open>YYYY-MM-DD\<close> strings, so that
  \<open>===\<close> on day strings is equality of day numbers. \<open>new Date(dayString)\<close> is UTC
  midnight of that day. Differences of instants are exact integers, and
  \<open>Math.floor(x / 86400000)\<close> is \<open>div\<close> on \<open>int\<close>, which rounds down as well.
\<close>

definition msPerDay :: int where
  "msPerDay = 1000 * 60 * 60 * 24"

definition dayOf :: "int \<Rightarrow> int" where
  "dayOf t = t div msPerDay"

definition parseDay :: "int \<Rightarrow> int" where
  "parseDay d = d * msPerDay"

section \<open>JavaScript numbers that a division may produce\<close>

text \<open>
  Finite doubles are idealised as reals (signed zero is one zero). A division by zero
  does not raise in JavaScript: it yields \<open>NaN\<close> or an infinity, kept here as values.
\<close>

datatype jsnum = Num real | PosInf | NegInf | NaN

definition js_div :: "real \<Rightarrow> real \<Rightarrow> jsnum" where
  "js_div a b =
     (if b = 0 then (if a = 0 then NaN else if 0 < a then PosInf else NegInf)
      else Num (a / b))"

fun js_mul :: "jsnum \<Rightarrow> real \<Rightarrow> jsnum" where
  "js_mul (Num x) c = Num (x * c)"
| "js_mul PosInf c = (if c = 0 then NaN else if 0 < c then PosInf else NegInf)"
| "js_mul NegInf c = (if c = 0 then NaN else if 0 < c then NegInf else PosInf)"
| "js_mul NaN c = NaN"

section \<open>Habit\<close>

record completion =
  date :: int
  timestamp :: int
  count :: int

record Habit =
  id' :: string
  name :: string
  description :: string
  category :: string
  cue :: string
  craving :: string
  response :: string
  reward :: string
  difficulty :: int
  frequency :: string
  targetCount :: int
  streak :: int
  longestStreak :: int
  completions :: "completion list"
  isActive :: bool
  createdAt :: int
  updatedAt :: int

text \<open>
  The constructor's argument: a plain object in which every field may be absent
  (\<open>None\<close> is \<open>undefined\<close>, which selects the default of the destructuring pattern).
  For \<open>id\<close>, \<open>null\<close> is \<open>None\<close> as well: both are falsy in \<open>id || this.generateId()\<close>,
  as is the empty string.
\<close>

record config =
  cfg_id :: "string option"
  cfg_name :: "string option"
  cfg_description :: "string option"
  cfg_category :: "string option"
  cfg_cue :: "string option"
  cfg_craving :: "string option"
  cfg_response :: "string option"
  cfg_reward :: "string option"
  cfg_difficulty :: "int option"
  cfg_frequency :: "string option"
  cfg_targetCount :: "int option"
  cfg_streak :: "int option"
  cfg_longestStreak :: "int option"
  cfg_completions :: "completion list option"
  cfg_isActive :: "bool option"
  cfg_createdAt :: "int option"
  cfg_updatedAt :: "int option"

definition orDefault :: "'a \<Rightarrow> 'a option \<Rightarrow> 'a" where
  "orDefault d v = (case v of None \<Rightarrow> d | Some x \<Rightarrow> x)"

text \<open>
  \<open>generateId\<close> reads the clock and the random generator; what they contribute is the
  parameter \<open>fresh\<close>. The result always starts with \<open>habit_\<close>.
\<close>

definition generateId :: "string \<Rightarrow> string" where
  "generateId fresh = ''habit_'' @ fresh"

text \<open>\<open>new Habit(cfg)\<close> at instant \<open>now\<close> (the value of \<open>new Date()\<close> in the defaults).\<close>

definition new_Habit :: "int \<Rightarrow> string \<Rightarrow> config \<Rightarrow> Habit" where
  "new_Habit now fresh c =
     \<lparr> id' = (case cfg_id c of None \<Rightarrow> generateId fresh
                | Some i \<Rightarrow> if i = [] then generateId fresh else i),
       name = orDefault [] (cfg_name c),
       description = orDefault [] (cfg_description c),
       category = orDefault ''general'' (cfg_category c),
       cue = orDefault [] (cfg_cue c),
       craving = orDefault [] (cfg_craving c),
       response = orDefault [] (cfg_response c),
       reward = orDefault [] (cfg_reward c),
       difficulty = orDefault 1 (cfg_difficulty c),
       frequency = orDefault ''daily'' (cfg_frequency c),
       targetCount = orDefault 1 (cfg_targetCount c),
       streak = orDefault 0 (cfg_streak c),
       longestStreak = orDefault 0 (cfg_longestStreak c),
       completions = orDefault [] (cfg_completions c),
       isActive = orDefault True (cfg_isActive c),
       createdAt = orDefault now (cfg_createdAt c),
       updatedAt = orDefault now (cfg_updatedAt c) \<rparr>"

text \<open>\<open>isCompletedToday(date)\<close>: some completion record carries the day string of \<open>date\<close>.\<close>

definition isCompletedToday :: "int \<Rightarrow> Habit \<Rightarrow> bool" where
  "isCompletedToday d h = list_ex (\<lambda>c. date c = dayOf d) (completions h)"

text \<open>
  The \<open>for\<close> loop of \<open>updateStreak\<close>: \<open>i\<close> runs from \<open>length - 2\<close> down to \<open>0\<close> and the
  loop breaks at the first adjacent pair whose day difference is not \<open>1\<close>. Both dates
  are UTC midnights, so the difference of the instants divided by the length of a day
  is the difference of the day numbers.
\<close>

function streakLoop :: "completion list \<Rightarrow> int \<Rightarrow> int \<Rightarrow> int" where
  "streakLoop sortedCompletions i tempStreak =
     (if 0 \<le> i then
        (let current = parseDay (date (sortedCompletions ! nat (i + 1)));
             previous = parseDay (date (sortedCompletions ! nat i));
             diff = (current - previous) div msPerDay
         in if diff = 1 then streakLoop sortedCompletions (i - 1) (tempStreak + 1)
            else tempStreak)
      else tempStreak)"
  by pat_completeness auto
termination
  by (relation "measure (\<lambda>(s, i, t). nat (i + 1))") auto

declare streakLoop.simps [simp del]

text \<open>
  \<open>updateStreak()\<close> at instant \<open>now\<close> (\<open>today = new Date()\<close>). \<open>Array.prototype.sort\<close>
  sorts \<open>this.completions\<close> in place and is stable; the comparator orders by day, so
  the array becomes \<open>sort_key date\<close> of itself. With no completion the method returns
  before it sorts and before it touches \<open>longestStreak\<close>. The local \<open>yesterday\<close> of the
  source is never read.
\<close>

definition updateStreak :: "int \<Rightarrow> Habit \<Rightarrow> Habit" where
  "updateStreak now h =
     (if length (completions h) = 0 then h\<lparr>streak := 0\<rparr>
      else
        (let sortedCompletions = sort_key (\<lambda>c. parseDay (date c)) (completions h);
             lastCompletion = parseDay (date (sortedCompletions ! (length sortedCompletions - 1)));
             daysDiff = (now - lastCompletion) div msPerDay;
             currentStreak =
               (if daysDiff \<le> 1
                then streakLoop sortedCompletions (int (length sortedCompletions) - 2) 1
                else 0)
         in h\<lparr>completions := sortedCompletions,
              streak := currentStreak,
              longestStreak := max (longestStreak h) currentStreak\<rparr>))"

text \<open>
  \<open>complete(date)\<close> at instant \<open>now\<close>: the returned boolean and the habit afterwards.
\<close>

definition complete :: "int \<Rightarrow> int \<Rightarrow> Habit \<Rightarrow> bool \<times> Habit" where
  "complete now d h =
     (if isCompletedToday d h then (False, h)
      else
        (let pushed = h\<lparr>completions :=
                          completions h @ [\<lparr>date = dayOf d, timestamp = d, count = 1\<rparr>]\<rparr>;
             updated = updateStreak now pushed
         in (True, updated\<lparr>updatedAt := now\<rparr>)))"

text \<open>
  \<open>getCompletionRate(days)\<close> at instant \<open>now\<close>. The method reads the clock twice in a row
  (\<open>endDate\<close>, \<open>startDate\<close>); both reads are the one instant \<open>now\<close> here.
  \<open>startDate.setDate(startDate.getDate() - days)\<close> moves the local wall-clock date back by
  \<open>days\<close> days and keeps the local time of day. As an instant that is \<open>days\<close> whole days
  back, plus \<open>offsetChange\<close>: the number of milliseconds by which the UTC offset of the
  local zone (local time minus UTC) at \<open>now\<close> exceeds its offset at the start date. It is
  \<open>0\<close> in a zone without daylight saving and whenever no change of the offset lies
  between the two dates, an hour (\<open>3600000\<close>) after a change to summer time and minus an
  hour after a change back. \<open>days\<close> is an integer. The division is JavaScript's: it does
  not raise when \<open>days\<close> is \<open>0\<close>.
\<close>

definition getCompletionRate :: "int \<Rightarrow> int \<Rightarrow> int \<Rightarrow> Habit \<Rightarrow> jsnum" where
  "getCompletionRate now offsetChange days h =
     (let endDate = now;
          startDate = now - days * msPerDay + offsetChange;
          completionsInPeriod =
            filter (\<lambda>c. let completionDate = parseDay (date c)
                         in startDate \<le> completionDate \<and> completionDate \<le> endDate)
                   (completions h)
      in js_mul (js_div (real (length completionsInPeriod)) (real_of_int days)) 100)"

definition getDaysSinceCreation :: "int \<Rightarrow> Habit \<Rightarrow> int" where
  "getDaysSinceCreation now h = (now - createdAt h) div msPerDay + 1"

text \<open>
  \<open>toJSON()\<close> returns a plain object with every field set; \<open>fromJSON(data)\<close> is
  \<open>new Habit(data)\<close>. The object shares its \<open>completions\<close> array with the habit; the
  model compares values.
\<close>

definition toJSON :: "Habit \<Rightarrow> config" where
  "toJSON h =
     \<lparr> cfg_id = Some (id' h),
       cfg_name = Some (name h),
       cfg_description = Some (description h),
       cfg_category = Some (category h),
       cfg_cue = Some (cue h),
       cfg_craving = Some (craving h),
       cfg_response = Some (response h),
       cfg_reward = Some (reward h),
       cfg_difficulty = Some (difficulty h),
       cfg_frequency = Some (frequency h),
       cfg_targetCount = Some (targetCount h),
       cfg_streak = Some (streak h),
       cfg_longestStreak = Some (longestStreak h),
       cfg_completions = Some (completions h),
       cfg_isActive = Some (isActive h),
       cfg_createdAt = Some (createdAt h),
       cfg_updatedAt = Some (updatedAt h) \<rparr>"

definition fromJSON :: "int \<Rightarrow> string \<Rightarrow> config \<Rightarrow> Habit" where
  "fromJSON now fresh data = new_Habit now fresh data"

section \<open>HabitTracker\<close>

text \<open>
  A JavaScript \<open>Map\<close> keeps its keys in insertion order: an association list with
  unique keys. \<open>set\<close> overwrites the value of a present key in place and appends a new
  key. A \<open>Set\<close> is a list without duplicates, in insertion order.
\<close>

fun map_set :: "'k \<Rightarrow> 'v \<Rightarrow> ('k \<times> 'v) list \<Rightarrow> ('k \<times> 'v) list" where
  "map_set k v [] = [(k, v)]"
| "map_set k v ((k', v') # m) = (if k' = k then (k, v) # m else (k', v') # map_set k v m)"

definition new_Map :: "('k \<times> 'v) list \<Rightarrow> ('k \<times> 'v) list" where
  "new_Map entries = foldl (\<lambda>m (k, v). map_set k v m) [] entries"

definition set_add :: "'a \<Rightarrow> 'a list \<Rightarrow> 'a list" where
  "set_add x s = (if x \<in> set s then s else s @ [x])"

definition new_Set :: "'a list \<Rightarrow> 'a list" where
  "new_Set xs = foldl (\<lambda>s x. set_add x s) [] xs"

record HabitTracker =
  habits :: "(string \<times> Habit) list"
  categories :: "string list"

definition seedCategories :: "string list" where
  "seedCategories = new_Set [''health'', ''productivity'', ''learning'', ''social'',
                             ''creative'', ''general'']"

definition getHabit :: "string \<Rightarrow> HabitTracker \<Rightarrow> Habit option" where
  "getHabit i t = map_of (habits t) i"

definition getAllHabits :: "HabitTracker \<Rightarrow> Habit list" where
  "getAllHabits t = map snd (habits t)"

definition getActiveHabits :: "HabitTracker \<Rightarrow> Habit list" where
  "getActiveHabits t = filter isActive (getAllHabits t)"

subsection \<open>The storage slot\<close>

text \<open>
  What \<open>localStorage.getItem('atomicHabitsTracker')\<close> holds, seen through the operations
  that \<open>loadFromStorage\<close> applies to it. Each constructor stands for the JSON texts that
  the loader treats alike; where a value of the expected type is present (a habit
  record's fields, an id, a category label) it has the type that \<open>toJSON\<close> writes.
\<close>

datatype habitData =
    Nullish
      \<comment> \<open>\<open>null\<close>, or \<open>undefined\<close> when the pair has no second component:
          destructuring it in the constructor throws\<close>
  | Primitive
      \<comment> \<open>a number, boolean or string: it has none of the fields, every default applies\<close>
  | Object config
      \<comment> \<open>an object and the fields it has\<close>

datatype entry =
    NotIterable
      \<comment> \<open>a number, boolean, \<open>null\<close> or object where the pair should be:
          destructuring \<open>[id, habitData]\<close> throws\<close>
  | PairOf string habitData
      \<comment> \<open>an array with its first two components\<close>

datatype habitsField =
    HabitsFalsy
      \<comment> \<open>the property is absent, \<open>null\<close>, \<open>false\<close>, \<open>0\<close> or \<open>''\<close>\<close>
  | HabitsNoMap
      \<comment> \<open>truthy, not an array (a string, number, \<open>true\<close> or object): \<open>.map\<close> is not a function\<close>
  | HabitsArray "entry list"

datatype categoriesField =
    CategoriesFalsy
  | CategoriesNotIterable
      \<comment> \<open>a non-zero number, \<open>true\<close> or an object: \<open>new Set\<close> throws\<close>
  | CategoriesString string
      \<comment> \<open>a non-empty string: \<open>new Set\<close> iterates its characters\<close>
  | CategoriesArray "string list"

datatype parsed =
    RootNull
      \<comment> \<open>\<open>JSON.parse\<close> returned \<open>null\<close>: reading \<open>data.habits\<close> throws\<close>
  | Root habitsField categoriesField
      \<comment> \<open>any other value, with its \<open>habits\<close> and \<open>categories\<close> properties
          (a number, string, boolean or array has neither)\<close>

datatype item =
    NoItem
      \<comment> \<open>\<open>getItem\<close> returned \<open>null\<close> or \<open>''\<close>: the loader parses \<open>'{}'\<close>\<close>
  | Garbage
      \<comment> \<open>a text that \<open>JSON.parse\<close> rejects\<close>
  | Json parsed

datatype error = SyntaxError | TypeError | QuotaExceededError

definition emptyConfig :: config where
  "emptyConfig =
     \<lparr> cfg_id = None, cfg_name = None, cfg_description = None, cfg_category = None,
       cfg_cue = None, cfg_craving = None, cfg_response = None, cfg_reward = None,
       cfg_difficulty = None, cfg_frequency = None, cfg_targetCount = None,
       cfg_streak = None, cfg_longestStreak = None, cfg_completions = None,
       cfg_isActive = None, cfg_createdAt = None, cfg_updatedAt = None \<rparr>"

text \<open>
  The callback of \<open>data.habits.map\<close>: \<open>([id, habitData]) => [id, Habit.fromJSON(habitData)]\<close>.
  Generated ids of one load share the parameter \<open>fresh\<close>; the \<open>Map\<close> is keyed by the
  stored id of the pair, so they are never compared.
\<close>

fun loadEntry :: "int \<Rightarrow> string \<Rightarrow> entry \<Rightarrow> error + (string \<times> Habit)" where
  "loadEntry now fresh NotIterable = Inl TypeError"
| "loadEntry now fresh (PairOf k Nullish) = Inl TypeError"
| "loadEntry now fresh (PairOf k Primitive) = Inr (k, fromJSON now fresh emptyConfig)"
| "loadEntry now fresh (PairOf k (Object data)) = Inr (k, fromJSON now fresh data)"

text \<open>\<open>Array.prototype.map\<close> with a callback that may throw: the first throw ends it.\<close>

fun mapEntries :: "int \<Rightarrow> string \<Rightarrow> entry list \<Rightarrow> error + (string \<times> Habit) list" where
  "mapEntries now fresh [] = Inr []"
| "mapEntries now fresh (e # es) =
     (case loadEntry now fresh e of
        Inl err \<Rightarrow> Inl err
      | Inr p \<Rightarrow> (case mapEntries now fresh es of
                   Inl err \<Rightarrow> Inl err
                 | Inr ps \<Rightarrow> Inr (p # ps)))"

text \<open>
  The body of the \<open>try\<close> block: the exception it ends with, if any, and the tracker at
  that point. \<open>this.habits\<close> is assigned before \<open>data.categories\<close> is looked at.
\<close>

definition loadHabits ::
  "int \<Rightarrow> string \<Rightarrow> habitsField \<Rightarrow> HabitTracker \<Rightarrow> error option \<times> HabitTracker" where
  "loadHabits now fresh hf t =
     (case hf of
        HabitsFalsy \<Rightarrow> (None, t)
      | HabitsNoMap \<Rightarrow> (Some TypeError, t)
      | HabitsArray es \<Rightarrow>
          (case mapEntries now fresh es of
             Inl err \<Rightarrow> (Some err, t)
           | Inr ps \<Rightarrow> (None, t\<lparr>habits := new_Map ps\<rparr>)))"

definition loadCategories :: "categoriesField \<Rightarrow> HabitTracker \<Rightarrow> error option \<times> HabitTracker" where
  "loadCategories cf t =
     (case cf of
        CategoriesFalsy \<Rightarrow> (None, t)
      | CategoriesNotIterable \<Rightarrow> (Some TypeError, t)
      | CategoriesString s \<Rightarrow> (None, t\<lparr>categories := new_Set (map (\<lambda>c. [c]) s)\<rparr>)
      | CategoriesArray cs \<Rightarrow> (None, t\<lparr>categories := new_Set cs\<rparr>))"

definition loadTry ::
  "int \<Rightarrow> string \<Rightarrow> item \<Rightarrow> HabitTracker \<Rightarrow> error option \<times> HabitTracker" where
  "loadTry now fresh it t =
     (case it of
        Garbage \<Rightarrow> (Some SyntaxError, t)
      | NoItem \<Rightarrow> (None, t)
      | Json RootNull \<Rightarrow> (Some TypeError, t)
      | Json (Root hf cf) \<Rightarrow>
          (case loadHabits now fresh hf t of
             (Some err, t1) \<Rightarrow> (Some err, t1)
           | (None, t1) \<Rightarrow> loadCategories cf t1))"

text \<open>\<open>loadFromStorage()\<close>: the \<open>catch\<close> clause logs and resets \<open>this.habits\<close> only.\<close>

definition loadFromStorage :: "int \<Rightarrow> string \<Rightarrow> item \<Rightarrow> HabitTracker \<Rightarrow> HabitTracker" where
  "loadFromStorage now fresh it t =
     (case loadTry now fresh it t of
        (Some err, t1) \<Rightarrow> t1\<lparr>habits := []\<rparr>
      | (None, t1) \<Rightarrow> t1)"

text \<open>
  \<open>new HabitTracker()\<close> over a storage slot holding \<open>it\<close>: an empty \<open>Map\<close>, the seed
  categories, then \<open>loadFromStorage\<close>.
\<close>

definition emptyTracker :: HabitTracker where
  "emptyTracker = \<lparr>habits = [], categories = seedCategories\<rparr>"

definition new_HabitTracker :: "int \<Rightarrow> string \<Rightarrow> item \<Rightarrow> HabitTracker" where
  "new_HabitTracker now fresh it = loadFromStorage now fresh it emptyTracker"

text \<open>
  \<open>saveToStorage()\<close> over a slot holding \<open>slot\<close>: the exception it ends with, if any, and
  what the slot holds afterwards. \<open>data\<close> is the object of the source as \<open>JSON.parse\<close>
  reads its \<open>JSON.stringify\<close> text back; an instant is written as its ISO string, which
  \<open>new Date\<close> reads back as the same instant. \<open>localStorage.setItem\<close> throws when the
  storage does not take the text (its quota is exceeded) and leaves the slot as it was;
  \<open>accepted\<close> says whether the storage takes this write.
\<close>

definition saveToStorage :: "bool \<Rightarrow> HabitTracker \<Rightarrow> item \<Rightarrow> error option \<times> item" where
  "saveToStorage accepted t slot =
     (let data = Json (Root (HabitsArray (map (\<lambda>(i, habit). PairOf i (Object (toJSON habit)))
                                              (habits t)))
                            (CategoriesArray (categories t)))
      in if accepted then (None, data) else (Some QuotaExceededError, slot))"

text \<open>
  \<open>completeHabit(id, date)\<close> at instant \<open>now\<close>, over the tracker and the storage slot:
  the value it returns (\<open>Inr\<close>) or the exception that leaves it (\<open>Inl\<close>), and the tracker
  and the slot afterwards. The \<open>Map\<close> holds the habit object itself, so what \<open>complete\<close>
  does to it is seen through the \<open>Map\<close>: the model writes the habit back under its key.
  An exception of \<open>saveToStorage\<close> is not caught.
\<close>

definition completeHabit ::
  "bool \<Rightarrow> int \<Rightarrow> string \<Rightarrow> int \<Rightarrow> HabitTracker \<times> item
     \<Rightarrow> (error + bool) \<times> HabitTracker \<times> item" where
  "completeHabit accepted now i d w =
     (case getHabit i (fst w) of
        None \<Rightarrow> (Inr False, w)
      | Some habit \<Rightarrow>
          (let (ok, habit') = complete now d habit;
               t' = (fst w)\<lparr>habits := map_set i habit' (habits (fst w))\<rparr>
           in if ok then
                (case saveToStorage accepted t' (snd w) of
                   (Some err, slot) \<Rightarrow> (Inl err, t', slot)
                 | (None, slot) \<Rightarrow> (Inr True, t', slot))
              else (Inr False, t', snd w)))"

record OverallStats =
  totalHabits :: nat
  completedToday :: nat
  completionRateToday :: real
  averageStreak :: real
  longestStreakOverall :: int

text \<open>
  \<open>getOverallStats()\<close> at instant \<open>now\<close>. \<open>Math.max(...xs, 0)\<close> folds \<open>max\<close> over the
  values, the literal \<open>0\<close> among them. Both divisions are guarded by \<open>totalHabits > 0\<close>.
\<close>

definition getOverallStats :: "int \<Rightarrow> HabitTracker \<Rightarrow> OverallStats" where
  "getOverallStats now t =
     (let hs = getActiveHabits t;
          total = length hs;
          completed = length (filter (isCompletedToday now) hs);
          totalStreaks = foldl (\<lambda>sum h. sum + streak h) 0 hs;
          avgStreak = (if 0 < total then real_of_int totalStreaks / real total else 0)
      in \<lparr> totalHabits = total,
           completedToday = completed,
           completionRateToday = (if 0 < total then real completed / real total * 100 else 0),
           averageStreak = avgStreak,
           longestStreakOverall = fold max (map longestStreak hs) 0 \<rparr>)"

section \<open>Predicates of the specification\<close>

text \<open>
  The window of \<open>getCompletionRate\<close> as the specification words it: the calendar days
  from \<open>today - days\<close> to \<open>today\<close>, both included. It is compared below with
  \<open>getCompletionRate\<close>, which is the method of the source.
\<close>

definition spec_getCompletionRate :: "int \<Rightarrow> int \<Rightarrow> Habit \<Rightarrow> jsnum" where
  "spec_getCompletionRate now days h =
     Num (real (length (filter (\<lambda>c. dayOf now - days \<le> date c \<and> date c \<le> dayOf now)
                               (completions h)))
          / real_of_int days * 100)"

text \<open>
  The persisted layout of the specification: an array of pairs of an id and a habit record,
  and an array of category labels.
\<close>

definition structurallyValid :: "item \<Rightarrow> bool" where
  "structurallyValid it =
     (case it of
        Json (Root (HabitsArray es) (CategoriesArray cs)) \<Rightarrow>
          list_all (\<lambda>e. case e of PairOf k (Object data) \<Rightarrow> True | _ \<Rightarrow> False) es
      | _ \<Rightarrow> False)"

text \<open>
  The test that the filter of \<open>getCompletionRate\<close> applies to a record, in calendar
  days (\<open>period_filter\<close> below proves that it is the same test).
\<close>

definition inPeriod :: "int \<Rightarrow> int \<Rightarrow> int \<Rightarrow> completion \<Rightarrow> bool" where
  "inPeriod now offsetChange days c \<longleftrightarrow>
     date c \<le> dayOf now \<and>
     (dayOf (now + offsetChange) - days < date c \<or>
      (date c = dayOf (now + offsetChange) - days \<and> (now + offsetChange) mod msPerDay = 0))"

section \<open>Example data\<close>

text \<open>
  A completion record written at the midnight that starts day \<open>d\<close>; a habit with the
  given records and defaults elsewhere; a habit with chosen streak values; a tracker
  with three active habits and one inactive habit.
\<close>

definition onDay :: "int \<Rightarrow> completion" where
  "onDay d = \<lparr>date = d, timestamp = parseDay d, count = 1\<rparr>"

definition exampleHabit :: "completion list \<Rightarrow> Habit" where
  "exampleHabit cs =
     new_Habit 0 ''x'' (emptyConfig\<lparr>cfg_id := Some ''h1'', cfg_completions := Some cs\<rparr>)"

definition habitWith :: "string \<Rightarrow> bool \<Rightarrow> int \<Rightarrow> int \<Rightarrow> completion list \<Rightarrow> Habit" where
  "habitWith i active s l cs =
     new_Habit 0 ''x''
       (emptyConfig\<lparr>cfg_id := Some i, cfg_isActive := Some active, cfg_streak := Some s,
                     cfg_longestStreak := Some l, cfg_completions := Some cs\<rparr>)"

text \<open>
  A habit created at the midnight that starts day 0 and completed at the midnights that
  start the days 0, 1 and 2, the clock standing at each of them in turn.
\<close>

definition completedDaily :: Habit where
  "completedDaily =
     snd (complete (2 * msPerDay) (2 * msPerDay)
       (snd (complete msPerDay msPerDay
         (snd (complete 0 0 (new_Habit 0 ''x'' emptyConfig))))))"

definition exampleTracker :: HabitTracker where
  "exampleTracker =
     \<lparr> habits = [(''a'', habitWith ''a'' True 3 5 [onDay 10]),
                 (''b'', habitWith ''b'' True 0 2 []),
                 (''c'', habitWith ''c'' False 40 50 [onDay 10]),
                 (''d'', habitWith ''d'' True 7 9 [onDay 9, onDay 10])],
       categories = seedCategories \<rparr>"

section \<open>Calendar arithmetic\<close>

lemmas example_simps =
  exampleHabit_def habitWith_def new_Habit_def emptyConfig_def orDefault_def onDay_def

lemma msPerDay_pos: "0 < msPerDay" by (simp add: msPerDay_def)

lemma day_diff: "(parseDay a - parseDay b) div msPerDay = a - b"
proof -
  have "parseDay a - parseDay b = (a - b) * msPerDay" by (simp add: parseDay_def algebra_simps)
  then show ?thesis using msPerDay_pos by simp
qed

lemma days_since: "(now - parseDay d) div msPerDay = dayOf now - d"
proof -
  have "now - parseDay d = now + (- d) * msPerDay" by (simp add: parseDay_def)
  moreover have "(now + (- d) * msPerDay) div msPerDay = - d + now div msPerDay"
    using msPerDay_pos by (intro div_mult_self1) simp
  ultimately show ?thesis by (simp add: dayOf_def)
qed

lemma parseDay_inj: "parseDay a = parseDay b \<longleftrightarrow> a = b"
  using msPerDay_pos by (simp add: parseDay_def)

lemma floor_day:
  fixes m :: int assumes "0 < m"
  shows "K * m \<le> n \<longleftrightarrow> K \<le> n div m"
proof
  assume "K * m \<le> n"
  then have "(K * m) div m \<le> n div m" using assms by (intro zdiv_mono1) auto
  then show "K \<le> n div m" using assms by simp
next
  assume "K \<le> n div m"
  then have "K * m \<le> (n div m) * m" using assms by (intro mult_right_mono) auto
  also have "\<dots> \<le> n" using assms by (simp add: minus_mod_eq_div_mult[symmetric])
  finally show "K * m \<le> n" .
qed

lemma ceil_day:
  fixes m :: int assumes "0 < m"
  shows "n \<le> K * m \<longleftrightarrow> n div m < K \<or> (n div m = K \<and> n mod m = 0)"
proof -
  have "n \<le> K * m \<longleftrightarrow> \<not> (K * m + 1 \<le> n)" by auto
  have split: "n = (n div m) * m + n mod m" by simp
  have r: "0 \<le> n mod m" "n mod m < m" using assms by auto
  show ?thesis
  proof (cases "n div m < K")
    case True
    then have "(n div m + 1) * m \<le> K * m" using assms by (intro mult_right_mono) auto
    then have "(n div m) * m + m \<le> K * m" by (simp add: algebra_simps)
    then have "n \<le> K * m" using split r by linarith
    then show ?thesis using True by simp
  next
    case False
    show ?thesis
    proof (cases "n div m = K")
      case True
      have e: "n = K * m + n mod m" unfolding True[symmetric] by simp
      have "n \<le> K * m \<longleftrightarrow> n mod m = 0" using e r by linarith
      then show ?thesis using True by simp
    next
      case F2: False
      then have "K + 1 \<le> n div m" using False by simp
      then have "(K + 1) * m \<le> (n div m) * m" using assms by (intro mult_right_mono) auto
      then have "K * m + m \<le> (n div m) * m" by (simp add: algebra_simps)
      then have "K * m < n" using split r assms by linarith
      then show ?thesis using False F2 by simp
    qed
  qed
qed

lemma before_now: "parseDay D \<le> now \<longleftrightarrow> D \<le> dayOf now"
  unfolding parseDay_def dayOf_def using floor_day[OF msPerDay_pos] .

lemma after_start:
  "now - days * msPerDay \<le> parseDay D \<longleftrightarrow>
     dayOf now - days < D \<or> (D = dayOf now - days \<and> now mod msPerDay = 0)"
proof -
  have "now - days * msPerDay \<le> parseDay D \<longleftrightarrow> now \<le> (D + days) * msPerDay"
    by (simp add: parseDay_def algebra_simps)
  also have "\<dots> \<longleftrightarrow> now div msPerDay < D + days \<or> (now div msPerDay = D + days \<and> now mod msPerDay = 0)"
    by (rule ceil_day[OF msPerDay_pos])
  also have "\<dots> \<longleftrightarrow> dayOf now - days < D \<or> (D = dayOf now - days \<and> now mod msPerDay = 0)"
    by (auto simp: dayOf_def)
  finally show ?thesis .
qed

section \<open>Streak recomputation\<close>

lemma sorted_by_day: "sorted (map date (sort_key (\<lambda>c. parseDay (date c)) cs))"
proof -
  have "sorted (map (\<lambda>c. parseDay (date c)) (sort_key (\<lambda>c. parseDay (date c)) cs))"
    by (rule sorted_sort_key)
  then show ?thesis using msPerDay_pos
    by (auto simp: sorted_map parseDay_def sorted_wrt_iff_nth_less)
qed

lemma streakLoop_run:
  "- 1 \<le> i \<Longrightarrow> (\<forall>k. 0 \<le> k \<and> k \<le> i \<longrightarrow> date (s ! nat (k + 1)) = date (s ! nat k) + 1)
     \<Longrightarrow> streakLoop s i t = t + i + 1"
proof (induction s i t rule: streakLoop.induct)
  case (1 s i t)
  show ?case
  proof (cases "0 \<le> i")
    case True
    have d: "date (s ! nat (i + 1)) = date (s ! nat i) + 1" using "1.prems" True by simp
    have "streakLoop s (i - 1) (t + 1) = (t + 1) + (i - 1) + 1"
      using "1.IH"[OF True refl refl refl] d "1.prems" True by (simp add: day_diff)
    then show ?thesis using True d by (subst streakLoop.simps) (simp add: day_diff)
  next
    case False
    then show ?thesis using "1.prems" by (subst streakLoop.simps) simp
  qed
qed

lemma sorted_days_consecutive:
  assumes "distinct (map date cs)" "date ` set cs = {a..b}"
  shows "map date (sort_key (\<lambda>c. parseDay (date c)) cs) = [a..b]"
proof (rule sorted_distinct_set_unique)
  show "sorted (map date (sort_key (\<lambda>c. parseDay (date c)) cs))" by (rule sorted_by_day)
  show "distinct (map date (sort_key (\<lambda>c. parseDay (date c)) cs))"
    using assms(1) by (simp add: distinct_map)
  show "set (map date (sort_key (\<lambda>c. parseDay (date c)) cs)) = set [a..b]"
    using assms(2) by simp
qed simp_all

lemma last_day_Max:
  assumes "cs \<noteq> []"
  shows "date (sort_key (\<lambda>c. parseDay (date c)) cs ! (length cs - 1)) = Max (date ` set cs)"
proof -
  let ?s = "sort_key (\<lambda>c. parseDay (date c)) cs"
  have len: "length ?s = length cs" by simp
  have n: "length cs - 1 < length ?s" using assms by simp
  have "\<forall>x \<in> set ?s. date x \<le> date (?s ! (length cs - 1))"
  proof
    fix x assume "x \<in> set ?s"
    then obtain k where k: "k < length ?s" "?s ! k = x" unfolding in_set_conv_nth by blast
    have "map date ?s ! k \<le> map date ?s ! (length cs - 1)"
      using sorted_by_day[of cs] k(1) n by (intro sorted_nth_mono) auto
    then show "date x \<le> date (?s ! (length cs - 1))" using k n by simp
  qed
  moreover have "?s ! (length cs - 1) \<in> set ?s" using n by (rule nth_mem)
  ultimately show ?thesis by (intro Max_eqI[symmetric]) auto
qed

lemma streak_of_run:
  assumes dist: "distinct (map date (completions h))"
    and days: "date ` set (completions h) = {dayOf now - int N + 1 .. dayOf now}"
  shows "streak (updateStreak now h) = int N"
proof (cases "completions h = []")
  case True
  with days have "{dayOf now - int N + 1 .. dayOf now} = {}" by simp
  then have "N = 0" by simp
  with True show ?thesis by (simp add: updateStreak_def)
next
  case False
  let ?s = "sort_key (\<lambda>c. parseDay (date c)) (completions h)"
  let ?a = "dayOf now - int N + 1"
  have m: "map date ?s = [?a..dayOf now]"
    using dist days by (rule sorted_days_consecutive)
  have "length (map date ?s) = length [?a..dayOf now]" using m by simp
  then have len: "length (completions h) = N" by simp
  have N: "0 < N" using False len by auto
  have nth: "date (?s ! k) = ?a + int k" if "k < N" for k
  proof -
    have "map date ?s ! k = [?a..dayOf now] ! k" using m by simp
    moreover have "map date ?s ! k = date (?s ! k)" using that len by simp
    moreover have "[?a..dayOf now] ! k = ?a + int k" using that by (intro nth_upto) simp
    ultimately show ?thesis by simp
  qed
  have lastd: "date (?s ! (N - 1)) = dayOf now" using nth[of "N - 1"] N by simp
  have run: "\<forall>k. 0 \<le> k \<and> k \<le> int N - 2 \<longrightarrow> date (?s ! nat (k + 1)) = date (?s ! nat k) + 1"
  proof (intro allI impI)
    fix k :: int assume k: "0 \<le> k \<and> k \<le> int N - 2"
    then have "nat (k + 1) < N" "nat k < N" by auto
    then have "date (?s ! nat (k + 1)) = ?a + int (nat (k + 1))" "date (?s ! nat k) = ?a + int (nat k)"
      using nth by blast+
    with k show "date (?s ! nat (k + 1)) = date (?s ! nat k) + 1" by simp
  qed
  have loop: "streakLoop ?s (int N - 2) 1 = 1 + (int N - 2) + 1"
    using N run by (intro streakLoop_run) auto
  show ?thesis using False len lastd loop
    by (simp add: updateStreak_def Let_def days_since)
qed

lemma streak_broken:
  assumes "completions h \<noteq> []" and "2 \<le> dayOf now - Max (date ` set (completions h))"
  shows "streak (updateStreak now h) = 0"
proof -
  have "date (sort_key (\<lambda>c. parseDay (date c)) (completions h) ! (length (completions h) - Suc 0)) =
        Max (date ` set (completions h))"
    using last_day_Max[OF assms(1)] by simp
  then show ?thesis using assms by (simp add: updateStreak_def Let_def days_since)
qed

text \<open>
  Claim C1. When the completion records of a habit fall on exactly \<open>N\<close> consecutive
  calendar days ending today, one record a day, \<open>updateStreak\<close> sets \<open>streak\<close> to \<open>N\<close>.
  When the day of the most recent completion is two or more days before today,
  \<open>updateStreak\<close> sets \<open>streak\<close> to \<open>0\<close>.
\<close>

theorem updateStreak_continuity:
  "(distinct (map date (completions h)) \<and>
      date ` set (completions h) = {dayOf now - int N + 1 .. dayOf now}
      \<longrightarrow> streak (updateStreak now h) = int N)
   \<and> (completions h \<noteq> [] \<and> 2 \<le> dayOf now - Max (date ` set (completions h))
      \<longrightarrow> streak (updateStreak now h) = 0)"
  using streak_of_run[of h now N] streak_broken[of h now] by blast

text \<open>
  Both parts of C1 at concrete habits: records on days 8, 9 and 10 read on day 10 give a
  streak of 3; the same records read on day 12 give a streak of 0.
\<close>

theorem updateStreak_continuity_witness:
  "distinct (map date (completions (exampleHabit [onDay 10, onDay 8, onDay 9]))) \<and>
   date ` set (completions (exampleHabit [onDay 10, onDay 8, onDay 9])) = {dayOf (10 * msPerDay + 5) - int 3 + 1 .. dayOf (10 * msPerDay + 5)} \<and>
   streak (updateStreak (10 * msPerDay + 5) (exampleHabit [onDay 10, onDay 8, onDay 9])) = 3 \<and>
   completions (exampleHabit [onDay 10, onDay 8, onDay 9]) \<noteq> [] \<and>
   2 \<le> dayOf (12 * msPerDay + 5) - Max (date ` set (completions (exampleHabit [onDay 10, onDay 8, onDay 9]))) \<and>
   streak (updateStreak (12 * msPerDay + 5) (exampleHabit [onDay 10, onDay 8, onDay 9])) = 0"
proof -
  have c: "completions (exampleHabit [onDay 10, onDay 8, onDay 9]) = [onDay 10, onDay 8, onDay 9]"
    by (simp add: example_simps)
  have d10: "dayOf (10 * msPerDay + 5) = 10" by (simp add: dayOf_def msPerDay_def)
  have d12: "dayOf (12 * msPerDay + 5) = 12" by (simp add: dayOf_def msPerDay_def)
  have h1: "distinct (map date (completions (exampleHabit [onDay 10, onDay 8, onDay 9])))"
    unfolding c by (simp add: onDay_def)
  have h2: "date ` set (completions (exampleHabit [onDay 10, onDay 8, onDay 9])) = {dayOf (10 * msPerDay + 5) - int 3 + 1 .. dayOf (10 * msPerDay + 5)}"
  proof -
    have "{8..10::int} = {10, 8, 9}" by auto
    then show ?thesis unfolding c d10 by (simp add: onDay_def)
  qed
  have h3: "completions (exampleHabit [onDay 10, onDay 8, onDay 9]) \<noteq> []" unfolding c by simp
  have h4: "2 \<le> dayOf (12 * msPerDay + 5) - Max (date ` set (completions (exampleHabit [onDay 10, onDay 8, onDay 9])))"
    unfolding c d12 by (simp add: onDay_def)
  have r1: "streak (updateStreak (10 * msPerDay + 5) (exampleHabit [onDay 10, onDay 8, onDay 9])) = int 3"
    by (rule updateStreak_continuity[THEN conjunct1, rule_format]) (intro conjI h1 h2)
  have r2: "streak (updateStreak (12 * msPerDay + 5) (exampleHabit [onDay 10, onDay 8, onDay 9])) = 0"
    by (rule updateStreak_continuity[THEN conjunct2, rule_format]) (intro conjI h3 h4)
  from r1 have r1': "streak (updateStreak (10 * msPerDay + 5) (exampleHabit [onDay 10, onDay 8, onDay 9])) = 3"
    by simp
  show ?thesis by (intro conjI h1 h2 r1' h3 h4 r2)
qed

section \<open>Completing a habit\<close>

lemma same_day_filter:
  "filter (\<lambda>c. date c = D) (sort_key (\<lambda>c. parseDay (date c)) cs) = filter (\<lambda>c. date c = D) cs"
  using sort_key_stable[of "\<lambda>c. parseDay (date c)" "parseDay D" cs]
  by (simp add: parseDay_inj)

lemma isCompletedToday_filter:
  "isCompletedToday d h \<longleftrightarrow> filter (\<lambda>c. date c = dayOf d) (completions h) \<noteq> []"
  by (simp add: isCompletedToday_def list_ex_iff filter_empty_conv)

lemma complete_rejected: "isCompletedToday d h \<Longrightarrow> complete now d h = (False, h)"
  by (simp add: complete_def)

lemma complete_accepted:
  "\<not> isCompletedToday d h \<Longrightarrow>
     fst (complete now d h) \<and>
     completions (snd (complete now d h)) =
       sort_key (\<lambda>c. parseDay (date c))
         (completions h @ [\<lparr>date = dayOf d, timestamp = d, count = 1\<rparr>])"
  by (simp add: complete_def updateStreak_def Let_def)

lemma complete_marks_day: "isCompletedToday d (snd (complete now d h))"
proof (cases "isCompletedToday d h")
  case True
  then show ?thesis by (simp add: complete_rejected)
next
  case False
  have "\<lparr>date = dayOf d, timestamp = d, count = 1\<rparr> \<in> set (completions (snd (complete now d h)))"
    using complete_accepted[OF False, of now] by simp
  then show ?thesis by (force simp: isCompletedToday_def list_ex_iff)
qed

lemma complete_one_record:
  assumes "\<not> isCompletedToday d h"
  shows "length (filter (\<lambda>c. date c = dayOf d) (completions (snd (complete now d h)))) = 1"
proof -
  have "filter (\<lambda>c. date c = dayOf d) (completions h) = []"
    using assms by (simp add: isCompletedToday_filter)
  then show ?thesis
    using complete_accepted[OF assms, of now] by (simp add: same_day_filter)
qed

text \<open>
  Claim C2, as amended. For two dates on the same calendar day: when the habit has no
  completion record for that day, the first call to \<open>complete\<close> returns true and adds
  one record (the array, one record longer, is then sorted by day), and the day has
  exactly one record afterwards; when the habit already has a record for that day, the
  first call returns false and changes nothing; in both cases the second call returns
  false and changes nothing.
\<close>

theorem complete_same_day:
  "dayOf d1 = dayOf d2 \<Longrightarrow>
     (\<not> isCompletedToday d1 h \<longrightarrow>
        fst (complete now1 d1 h) \<and>
        completions (snd (complete now1 d1 h)) =
          sort_key (\<lambda>c. parseDay (date c))
            (completions h @ [\<lparr>date = dayOf d1, timestamp = d1, count = 1\<rparr>]) \<and>
        length (completions (snd (complete now1 d1 h))) = Suc (length (completions h)) \<and>
        length (filter (\<lambda>c. date c = dayOf d1) (completions (snd (complete now1 d1 h)))) = 1) \<and>
     (isCompletedToday d1 h \<longrightarrow> complete now1 d1 h = (False, h)) \<and>
     complete now2 d2 (snd (complete now1 d1 h)) = (False, snd (complete now1 d1 h))"
proof -
  assume same: "dayOf d1 = dayOf d2"
  have "isCompletedToday d1 (snd (complete now1 d1 h))" by (rule complete_marks_day)
  then have "isCompletedToday d2 (snd (complete now1 d1 h))"
    using same by (simp add: isCompletedToday_def)
  then have second: "complete now2 d2 (snd (complete now1 d1 h)) = (False, snd (complete now1 d1 h))"
    by (rule complete_rejected)
  have first: "fst (complete now1 d1 h) \<and>
        completions (snd (complete now1 d1 h)) =
          sort_key (\<lambda>c. parseDay (date c))
            (completions h @ [\<lparr>date = dayOf d1, timestamp = d1, count = 1\<rparr>]) \<and>
        length (completions (snd (complete now1 d1 h))) = Suc (length (completions h)) \<and>
        length (filter (\<lambda>c. date c = dayOf d1) (completions (snd (complete now1 d1 h)))) = 1"
    if "\<not> isCompletedToday d1 h"
    using complete_accepted[OF that, of now1] complete_one_record[OF that, of now1] by simp
  show ?thesis using first second complete_rejected[of d1 h now1] by blast
qed

text \<open>
  C2 as stated fails for a habit that already has a record for the day: a habit with no
  record is completed once on day 10; of two further calls on day 10, the first returns
  false.
\<close>

theorem complete_same_day_counterexample:
  "\<not> fst (complete (10 * msPerDay + 9) (10 * msPerDay + 7)
          (snd (complete (10 * msPerDay + 5) (10 * msPerDay + 5) (exampleHabit []))))"
proof -
  have "isCompletedToday (10 * msPerDay + 5)
          (snd (complete (10 * msPerDay + 5) (10 * msPerDay + 5) (exampleHabit [])))"
    by (rule complete_marks_day)
  moreover have "dayOf (10 * msPerDay + 5) = dayOf (10 * msPerDay + 7)"
    by (simp add: dayOf_def msPerDay_def)
  ultimately have "isCompletedToday (10 * msPerDay + 7)
          (snd (complete (10 * msPerDay + 5) (10 * msPerDay + 5) (exampleHabit [])))"
    by (simp add: isCompletedToday_def)
  then show ?thesis by (simp add: complete_rejected)
qed

text \<open>The amended C2 at concrete habits, one without and one with a record for day 10.\<close>

theorem complete_same_day_witness:
  "dayOf (10 * msPerDay + 5) = dayOf (10 * msPerDay + 7) \<and>
   \<not> isCompletedToday (10 * msPerDay + 5) (exampleHabit [onDay 9]) \<and>
   fst (complete (10 * msPerDay + 6) (10 * msPerDay + 5) (exampleHabit [onDay 9])) \<and>
   length (completions (snd (complete (10 * msPerDay + 6) (10 * msPerDay + 5) (exampleHabit [onDay 9])))) = 2 \<and>
   isCompletedToday (10 * msPerDay + 5) (exampleHabit [onDay 10]) \<and>
   complete (10 * msPerDay + 6) (10 * msPerDay + 5) (exampleHabit [onDay 10]) = (False, exampleHabit [onDay 10]) \<and>
   \<not> fst (complete (10 * msPerDay + 8) (10 * msPerDay + 7)
       (snd (complete (10 * msPerDay + 6) (10 * msPerDay + 5) (exampleHabit [onDay 9]))))"
proof -
  have same: "dayOf (10 * msPerDay + 5) = dayOf (10 * msPerDay + 7)"
    by (simp add: dayOf_def msPerDay_def)
  have c9: "completions (exampleHabit [onDay 9]) = [onDay 9]"
    by (simp add: example_simps)
  have c10: "completions (exampleHabit [onDay 10]) = [onDay 10]"
    by (simp add: example_simps)
  have d: "dayOf (10 * msPerDay + 5) = 10" by (simp add: dayOf_def msPerDay_def)
  have fresh: "\<not> isCompletedToday (10 * msPerDay + 5) (exampleHabit [onDay 9])"
    unfolding isCompletedToday_def c9 d by (simp add: onDay_def)
  have dn: "isCompletedToday (10 * msPerDay + 5) (exampleHabit [onDay 10])"
    unfolding isCompletedToday_def c10 d by (simp add: onDay_def)
  note a = complete_same_day[OF same, of "exampleHabit [onDay 9]" "10 * msPerDay + 6" "10 * msPerDay + 8"]
  note b = complete_same_day[OF same, of "exampleHabit [onDay 10]" "10 * msPerDay + 6" "10 * msPerDay + 8"]
  have r1: "fst (complete (10 * msPerDay + 6) (10 * msPerDay + 5) (exampleHabit [onDay 9]))"
    using a fresh by blast
  have r2: "length (completions (snd (complete (10 * msPerDay + 6) (10 * msPerDay + 5) (exampleHabit [onDay 9])))) = 2"
    using a fresh c9 by simp
  have r3: "complete (10 * msPerDay + 6) (10 * msPerDay + 5) (exampleHabit [onDay 10]) = (False, exampleHabit [onDay 10])"
    using b dn by blast
  have r4: "\<not> fst (complete (10 * msPerDay + 8) (10 * msPerDay + 7)
       (snd (complete (10 * msPerDay + 6) (10 * msPerDay + 5) (exampleHabit [onDay 9]))))"
    using a by simp
  show ?thesis by (intro conjI same fresh r1 r2 dn r3 r4)
qed

section \<open>The longest streak\<close>

lemma updateStreak_longest_mono: "longestStreak h \<le> longestStreak (updateStreak now h)"
  by (simp add: updateStreak_def Let_def)

lemma updateStreak_bound:
  "completions h \<noteq> [] \<Longrightarrow> streak (updateStreak now h) \<le> longestStreak (updateStreak now h)"
  by (simp add: updateStreak_def Let_def)

lemma complete_longest_mono: "longestStreak h \<le> longestStreak (snd (complete now d h))"
proof (cases "isCompletedToday d h")
  case True
  then show ?thesis by (simp add: complete_rejected)
next
  case False
  then show ?thesis
    using updateStreak_longest_mono[of "h\<lparr>completions := completions h @ [\<lparr>date = dayOf d, timestamp = d, count = 1\<rparr>]\<rparr>" now]
    by (simp add: complete_def Let_def)
qed

lemma complete_bound:
  "fst (complete now d h) \<Longrightarrow> streak (snd (complete now d h)) \<le> longestStreak (snd (complete now d h))"
proof (cases "isCompletedToday d h")
  case True
  moreover assume "fst (complete now d h)"
  ultimately show ?thesis by (simp add: complete_rejected)
next
  case False
  then show ?thesis
    using updateStreak_bound[of "h\<lparr>completions := completions h @ [\<lparr>date = dayOf d, timestamp = d, count = 1\<rparr>]\<rparr>" now]
    by (simp add: complete_def Let_def)
qed

text \<open>
  Claim C3, as amended. Across every completion step \<open>longestStreak\<close> does not decrease;
  after a successful completion \<open>longestStreak >= streak\<close> holds whatever the state
  before; a completion step keeps \<open>longestStreak >= streak\<close> when it held before; the
  constructor copies both values from the configuration (defaults \<open>0\<close>) and the habit
  it builds satisfies \<open>longestStreak >= streak\<close> when those values do.
\<close>

theorem longestStreak_invariant:
  "longestStreak h \<le> longestStreak (snd (complete now d h)) \<and>
   (fst (complete now d h) \<longrightarrow>
      streak (snd (complete now d h)) \<le> longestStreak (snd (complete now d h))) \<and>
   (streak h \<le> longestStreak h \<longrightarrow>
      streak (snd (complete now d h)) \<le> longestStreak (snd (complete now d h))) \<and>
   (orDefault 0 (cfg_streak c) \<le> orDefault 0 (cfg_longestStreak c) \<longrightarrow>
      streak (new_Habit now' fresh c) \<le> longestStreak (new_Habit now' fresh c))"
proof (intro conjI impI)
  show "longestStreak h \<le> longestStreak (snd (complete now d h))"
    by (rule complete_longest_mono)
  show "streak (snd (complete now d h)) \<le> longestStreak (snd (complete now d h))"
    if "fst (complete now d h)" using that by (rule complete_bound)
  show "streak (snd (complete now d h)) \<le> longestStreak (snd (complete now d h))"
    if "streak h \<le> longestStreak h"
  proof (cases "fst (complete now d h)")
    case True
    then show ?thesis by (rule complete_bound)
  next
    case False
    then have "isCompletedToday d h" by (auto simp: complete_def Let_def split: if_splits)
    then show ?thesis using that by (simp add: complete_rejected)
  qed
  show "streak (new_Habit now' fresh c) \<le> longestStreak (new_Habit now' fresh c)"
    if "orDefault 0 (cfg_streak c) \<le> orDefault 0 (cfg_longestStreak c)"
    using that by (simp add: new_Habit_def)
qed

text \<open>
  C3 as stated fails right after construction: a configuration with \<open>streak = 5\<close> and no
  \<open>longestStreak\<close> gives a habit with \<open>streak = 5\<close> and \<open>longestStreak = 0\<close>.
\<close>

theorem longestStreak_invariant_counterexample:
  "longestStreak (new_Habit 0 ''x'' (emptyConfig\<lparr>cfg_streak := Some 5\<rparr>))
     < streak (new_Habit 0 ''x'' (emptyConfig\<lparr>cfg_streak := Some 5\<rparr>))"
  by (simp add: new_Habit_def emptyConfig_def orDefault_def)

text \<open>The amended C3 at a habit with a record on day 9, completed on day 10.\<close>

theorem longestStreak_invariant_witness:
  "fst (complete (10 * msPerDay + 6) (10 * msPerDay + 5) (exampleHabit [onDay 9])) \<and>
   streak (exampleHabit [onDay 9]) \<le> longestStreak (exampleHabit [onDay 9]) \<and>
   orDefault 0 (cfg_streak emptyConfig) \<le> orDefault 0 (cfg_longestStreak emptyConfig) \<and>
   longestStreak (exampleHabit [onDay 9])
     \<le> longestStreak (snd (complete (10 * msPerDay + 6) (10 * msPerDay + 5) (exampleHabit [onDay 9]))) \<and>
   streak (snd (complete (10 * msPerDay + 6) (10 * msPerDay + 5) (exampleHabit [onDay 9])))
     \<le> longestStreak (snd (complete (10 * msPerDay + 6) (10 * msPerDay + 5) (exampleHabit [onDay 9]))) \<and>
   streak (new_Habit 0 ''x'' emptyConfig) \<le> longestStreak (new_Habit 0 ''x'' emptyConfig)"
proof -
  have d: "dayOf (10 * msPerDay + 5) = 10" by (simp add: dayOf_def msPerDay_def)
  have c9: "completions (exampleHabit [onDay 9]) = [onDay 9]" by (simp add: example_simps)
  have "\<not> isCompletedToday (10 * msPerDay + 5) (exampleHabit [onDay 9])"
    unfolding isCompletedToday_def c9 d by (simp add: onDay_def)
  then have h1: "fst (complete (10 * msPerDay + 6) (10 * msPerDay + 5) (exampleHabit [onDay 9]))"
    by (simp add: complete_def Let_def)
  have h2: "streak (exampleHabit [onDay 9]) \<le> longestStreak (exampleHabit [onDay 9])"
    by (simp add: example_simps)
  have h3: "orDefault 0 (cfg_streak emptyConfig) \<le> (orDefault 0 (cfg_longestStreak emptyConfig) :: int)"
    by (simp add: emptyConfig_def orDefault_def)
  note inv = longestStreak_invariant[of "exampleHabit [onDay 9]" "10 * msPerDay + 6"
      "10 * msPerDay + 5" emptyConfig 0 "''x''"]
  have r1: "longestStreak (exampleHabit [onDay 9])
     \<le> longestStreak (snd (complete (10 * msPerDay + 6) (10 * msPerDay + 5) (exampleHabit [onDay 9])))"
    using inv by blast
  have r2: "streak (snd (complete (10 * msPerDay + 6) (10 * msPerDay + 5) (exampleHabit [onDay 9])))
     \<le> longestStreak (snd (complete (10 * msPerDay + 6) (10 * msPerDay + 5) (exampleHabit [onDay 9])))"
    using inv h1 by blast
  have r3: "streak (new_Habit 0 ''x'' emptyConfig) \<le> longestStreak (new_Habit 0 ''x'' emptyConfig)"
    using inv h3 by blast
  show ?thesis by (intro conjI h1 h2 h3 r1 r2 r3)
qed

section \<open>Serialization of a habit\<close>

text \<open>The constructor always sets a non-empty id, and \<open>complete\<close> keeps it.\<close>

lemma new_Habit_id: "id' (new_Habit now fresh c) \<noteq> []"
  by (simp add: new_Habit_def generateId_def split: option.splits)

lemma complete_id: "id' (snd (complete now d h)) = id' h"
  by (simp add: complete_def updateStreak_def Let_def)

lemma fromJSON_toJSON: "id' h \<noteq> [] \<Longrightarrow> fromJSON now fresh (toJSON h) = h"
  by (simp add: fromJSON_def toJSON_def new_Habit_def orDefault_def)

text \<open>
  Claim C4. \<open>Habit.fromJSON(h.toJSON())\<close> is a habit equal to \<open>h\<close> in every field, for
  every habit whose id is not the empty string (every habit that the constructor
  built); \<open>streak\<close>, \<open>longestStreak\<close> and \<open>completions\<close> are those of \<open>h\<close>, and loading
  any record takes its persisted \<open>streak\<close> as it is, whatever its completions.
\<close>

theorem habit_roundtrip:
  "(id' h \<noteq> [] \<longrightarrow> fromJSON now fresh (toJSON h) = h) \<and>
   streak (fromJSON now fresh (toJSON h)) = streak h \<and>
   longestStreak (fromJSON now fresh (toJSON h)) = longestStreak h \<and>
   completions (fromJSON now fresh (toJSON h)) = completions h \<and>
   streak (fromJSON now fresh (data\<lparr>cfg_streak := Some s\<rparr>)) = s"
  by (simp add: fromJSON_def toJSON_def new_Habit_def orDefault_def)

text \<open>
  C4 at a habit with \<open>streak = 7\<close> and no completion record: the round trip keeps the 7
  that a recomputation would replace by 0.
\<close>

theorem habit_roundtrip_witness:
  "id' (habitWith ''a'' True 7 9 []) \<noteq> [] \<and>
   fromJSON 5 ''y'' (toJSON (habitWith ''a'' True 7 9 [])) = habitWith ''a'' True 7 9 [] \<and>
   streak (fromJSON 5 ''y'' (toJSON (habitWith ''a'' True 7 9 []))) = 7 \<and>
   streak (updateStreak 5 (habitWith ''a'' True 7 9 [])) = 0"
proof -
  have i: "id' (habitWith ''a'' True 7 9 []) \<noteq> []" by (simp add: example_simps)
  have r: "fromJSON 5 ''y'' (toJSON (habitWith ''a'' True 7 9 [])) = habitWith ''a'' True 7 9 []"
    using habit_roundtrip[of "habitWith ''a'' True 7 9 []" 5 "''y''"] i by blast
  have s: "streak (habitWith ''a'' True 7 9 []) = 7" by (simp add: example_simps)
  have u: "streak (updateStreak 5 (habitWith ''a'' True 7 9 [])) = 0"
    by (simp add: updateStreak_def example_simps)
  show ?thesis using i r s u by simp
qed

section \<open>The completion rate\<close>

lemma period_filter:
  "filter (\<lambda>c. let completionDate = parseDay (date c)
               in now - days * msPerDay + offsetChange \<le> completionDate \<and> completionDate \<le> now) cs
   = filter (inPeriod now offsetChange days) cs"
proof (rule filter_cong)
  fix c assume "c \<in> set cs"
  have "now - days * msPerDay + offsetChange = (now + offsetChange) - days * msPerDay" by simp
  then show "(let completionDate = parseDay (date c)
               in now - days * msPerDay + offsetChange \<le> completionDate \<and> completionDate \<le> now)
        = inPeriod now offsetChange days c"
    using before_now[of "date c" now] after_start[of "now + offsetChange" days "date c"]
    by (auto simp: Let_def inPeriod_def)
qed simp

lemma rate_count:
  "getCompletionRate now offsetChange days h =
     js_mul (js_div (real (length (filter (inPeriod now offsetChange days) (completions h))))
                    (real_of_int days)) 100"
  by (simp add: getCompletionRate_def Let_def period_filter[unfolded Let_def])

lemma rate_positive_days:
  "0 < days \<Longrightarrow>
     getCompletionRate now offsetChange days h =
       Num (real (length (filter (inPeriod now offsetChange days) (completions h)))
            / real_of_int days * 100)"
  by (simp add: rate_count js_div_def)

lemma rate_off_midnight:
  "0 < days \<Longrightarrow> offsetChange = 0 \<Longrightarrow> now mod msPerDay \<noteq> 0 \<Longrightarrow>
     getCompletionRate now offsetChange days h =
       Num (real (length (filter (\<lambda>c. dayOf now - days < date c \<and> date c \<le> dayOf now)
                                 (completions h)))
            / real_of_int days * 100)"
proof -
  assume d: "0 < days" and z: "offsetChange = 0" and m: "now mod msPerDay \<noteq> 0"
  have "filter (inPeriod now offsetChange days) (completions h) =
        filter (\<lambda>c. dayOf now - days < date c \<and> date c \<le> dayOf now) (completions h)"
    using m z by (intro filter_cong) (auto simp: inPeriod_def)
  then show ?thesis using rate_positive_days[OF d, of now offsetChange h] by simp
qed

text \<open>
  Claim C5, as amended. For a positive \<open>days\<close>, in a local time zone whose UTC offset is
  the same at the current instant and at the start date (\<open>offsetChange = 0\<close>), and at a
  current instant that is not exactly a UTC midnight, \<open>getCompletionRate(days)\<close> is the
  number of completion records whose calendar day lies after \<open>today - days\<close> and up to
  \<open>today\<close> (the \<open>days\<close> calendar days ending today), divided by \<open>days\<close>, times 100; a
  record of the day exactly \<open>days\<close> days before today is not counted.
\<close>

theorem getCompletionRate_window:
  "0 < days \<Longrightarrow> offsetChange = 0 \<Longrightarrow> now mod msPerDay \<noteq> 0 \<Longrightarrow>
     getCompletionRate now offsetChange days h =
       Num (real (length (filter (\<lambda>c. dayOf now - days < date c \<and> date c \<le> dayOf now)
                                 (completions h)))
            / real_of_int days * 100)"
  by (rule rate_off_midnight)

text \<open>
  C5 as stated fails at noon of day 10, in a zone of constant offset, with \<open>days = 1\<close> and
  one record, on day 9: the method counts nothing and returns 0, the window with both
  end days counts the record and gives 100.
\<close>

theorem getCompletionRate_window_counterexample:
  "getCompletionRate (10 * msPerDay + 43200000) 0 1 (exampleHabit [onDay 9]) = Num 0 \<and>
   spec_getCompletionRate (10 * msPerDay + 43200000) 1 (exampleHabit [onDay 9]) = Num 100"
  by (simp add: getCompletionRate_def spec_getCompletionRate_def Let_def js_div_def
      example_simps parseDay_def dayOf_def msPerDay_def)

text \<open>
  The amended C5 at noon of day 10 with \<open>days = 2\<close>, no change of offset and records on
  days 8, 9 and 10: the records of days 9 and 10 count, the rate is 100.
\<close>

theorem getCompletionRate_window_witness:
  "(0::int) < 2 \<and> (0::int) = 0 \<and> (10 * msPerDay + 43200000) mod msPerDay \<noteq> 0 \<and>
   getCompletionRate (10 * msPerDay + 43200000) 0 2 (exampleHabit [onDay 8, onDay 9, onDay 10])
     = Num 100"
proof -
  have d: "(0::int) < 2" by simp
  have m: "(10 * msPerDay + 43200000) mod msPerDay \<noteq> 0" by (simp add: msPerDay_def)
  have "dayOf (10 * msPerDay + 43200000) = 10" by (simp add: dayOf_def msPerDay_def)
  then have "getCompletionRate (10 * msPerDay + 43200000) 0 2
               (exampleHabit [onDay 8, onDay 9, onDay 10]) = Num 100"
    using getCompletionRate_window[OF d refl m, of "exampleHabit [onDay 8, onDay 9, onDay 10]"]
    by (simp add: example_simps)
  then show ?thesis using d m by simp
qed

text \<open>
  Where the offset of the zone changes inside the period the window moves with it. Half
  an hour after a UTC midnight, the day after a change back from summer time (the start
  of the period falls an hour earlier), \<open>days = 1\<close> counts the records of yesterday and
  of today: the rate is 200. Half an hour before a UTC midnight, the day after a change
  to summer time (the start falls an hour later, on today's side of the midnight that
  starts the day), \<open>days = 1\<close> counts no record of that day.
\<close>

lemma rate_offset_change:
  "getCompletionRate (10 * msPerDay + 1800000) (- 3600000) 1 (exampleHabit [onDay 9, onDay 10])
     = Num 200 \<and>
   getCompletionRate (10 * msPerDay + 84600000) 3600000 1 (exampleHabit [onDay 10]) = Num 0 \<and>
   getCompletionRate (10 * msPerDay + 84600000) 0 1 (exampleHabit [onDay 10]) = Num 100"
  by (simp add: getCompletionRate_def Let_def js_div_def example_simps parseDay_def msPerDay_def)

text \<open>
  Claim C10. With \<open>days = 0\<close> the method returns \<open>NaN\<close> or \<open>Infinity\<close>, never a finite
  number; with \<open>days >= 1\<close> it returns a finite number that is not negative. Both hold
  whatever the offset of the local zone does.
\<close>

theorem getCompletionRate_zero_days:
  "(days = 0 \<longrightarrow> getCompletionRate now offsetChange days h = NaN \<or>
                  getCompletionRate now offsetChange days h = PosInf) \<and>
   (1 \<le> days \<longrightarrow> (\<exists>r. getCompletionRate now offsetChange days h = Num r \<and> 0 \<le> r))"
proof (intro conjI impI)
  assume "days = 0"
  then show "getCompletionRate now offsetChange days h = NaN \<or>
             getCompletionRate now offsetChange days h = PosInf"
    by (simp add: rate_count js_div_def)
next
  assume "1 \<le> days"
  then have "0 < days" by simp
  then show "\<exists>r. getCompletionRate now offsetChange days h = Num r \<and> 0 \<le> r"
    by (simp add: rate_positive_days)
qed

text \<open>
  C10 at concrete inputs: \<open>NaN\<close> for \<open>days = 0\<close> when no record is counted, \<open>Infinity\<close>
  for \<open>days = 0\<close> at the midnight that starts the day of a record, a number for \<open>days = 1\<close>.
\<close>

theorem getCompletionRate_zero_days_witness:
  "getCompletionRate (10 * msPerDay + 5) 0 0 (exampleHabit [onDay 10]) = NaN \<and>
   getCompletionRate (10 * msPerDay) 0 0 (exampleHabit [onDay 10]) = PosInf \<and>
   (1::int) \<le> 1 \<and>
   (\<exists>r. getCompletionRate (10 * msPerDay + 5) 0 1 (exampleHabit [onDay 10]) = Num r \<and> 0 \<le> r)"
proof -
  have z: "getCompletionRate (10 * msPerDay + 5) 0 0 (exampleHabit [onDay 10]) = NaN \<or>
           getCompletionRate (10 * msPerDay + 5) 0 0 (exampleHabit [onDay 10]) = PosInf"
    using getCompletionRate_zero_days[of 0 "10 * msPerDay + 5" 0 "exampleHabit [onDay 10]"] by simp
  have n: "getCompletionRate (10 * msPerDay + 5) 0 0 (exampleHabit [onDay 10]) \<noteq> PosInf"
    by (simp add: getCompletionRate_def Let_def js_div_def example_simps parseDay_def msPerDay_def)
  have a: "getCompletionRate (10 * msPerDay + 5) 0 0 (exampleHabit [onDay 10]) = NaN"
    using z n by blast
  have b: "getCompletionRate (10 * msPerDay) 0 0 (exampleHabit [onDay 10]) = PosInf"
    by (simp add: getCompletionRate_def Let_def js_div_def example_simps parseDay_def msPerDay_def)
  have c: "\<exists>r. getCompletionRate (10 * msPerDay + 5) 0 1 (exampleHabit [onDay 10]) = Num r \<and> 0 \<le> r"
    using getCompletionRate_zero_days[of 1 "10 * msPerDay + 5" 0 "exampleHabit [onDay 10]"] by simp
  show ?thesis using a b c by simp
qed

text \<open>
  Away from a UTC midnight, and with no change of the zone's offset inside the period,
  the rate of a habit completed every day is exactly 100: with one record on every
  calendar day from the day of creation to today and
  \<open>0 < days <= getDaysSinceCreation()\<close>, the method counts \<open>days\<close> records.
\<close>

lemma count_day_range:
  fixes f :: "'a \<Rightarrow> int"
  assumes "\<forall>D. a < D \<and> D \<le> b \<longrightarrow> length (filter (\<lambda>c. f c = D) cs) = 1"
  shows "a \<le> b \<Longrightarrow> length (filter (\<lambda>c. a < f c \<and> f c \<le> b) cs) = nat (b - a)"
  using assms
proof (induction "nat (b - a)" arbitrary: b)
  case 0
  then have "b = a" by simp
  then show ?case by simp
next
  case (Suc n)
  then have ab: "a < b" by linarith
  have split: "length (filter (\<lambda>c. a < f c \<and> f c \<le> b) xs) =
               length (filter (\<lambda>c. a < f c \<and> f c \<le> b - 1) xs) + length (filter (\<lambda>c. f c = b) xs)" for xs
    using ab by (induction xs) auto
  have "length (filter (\<lambda>c. a < f c \<and> f c \<le> b - 1) cs) = nat (b - 1 - a)"
    using Suc.hyps(2) Suc.prems ab by (intro Suc.hyps(1)) auto
  moreover have "length (filter (\<lambda>c. f c = b) cs) = 1" using Suc.prems(2) ab by simp
  ultimately show ?case using split[of cs] ab by simp
qed

lemma age_in_days:
  "getDaysSinceCreation now h \<le> dayOf now - dayOf (createdAt h) + 1"
proof -
  have "dayOf (now - createdAt h) * msPerDay \<le> now - createdAt h"
    using floor_day[OF msPerDay_pos, of "dayOf (now - createdAt h)" "now - createdAt h"]
    by (simp add: dayOf_def)
  moreover have "dayOf (createdAt h) * msPerDay \<le> createdAt h"
    using floor_day[OF msPerDay_pos, of "dayOf (createdAt h)" "createdAt h"]
    by (simp add: dayOf_def)
  ultimately have "(dayOf (now - createdAt h) + dayOf (createdAt h)) * msPerDay \<le> now"
    by (simp add: algebra_simps)
  then have "dayOf (now - createdAt h) + dayOf (createdAt h) \<le> dayOf now"
    using floor_day[OF msPerDay_pos] by (simp add: dayOf_def)
  then show ?thesis by (simp add: getDaysSinceCreation_def dayOf_def)
qed

lemma rate_every_day:
  assumes off: "now mod msPerDay \<noteq> 0" and const: "offsetChange = 0"
    and days: "0 < days" "days \<le> getDaysSinceCreation now h"
    and daily: "\<forall>D. dayOf (createdAt h) \<le> D \<and> D \<le> dayOf now \<longrightarrow>
                  length (filter (\<lambda>c. date c = D) (completions h)) = 1"
  shows "getCompletionRate now offsetChange days h = Num 100"
proof -
  have lo: "dayOf (createdAt h) \<le> dayOf now - days + 1"
    using days(2) age_in_days[of now h] by linarith
  have "length (filter (\<lambda>c. dayOf now - days < date c \<and> date c \<le> dayOf now) (completions h))
        = nat (dayOf now - (dayOf now - days))"
    using daily lo days(1) by (intro count_day_range) auto
  then show ?thesis using rate_off_midnight[OF days(1) const off, of h] days(1) by simp
qed

lemma completedDaily_records: "completions completedDaily = [onDay 0, onDay 1, onDay 2]"
  by (simp add: completedDaily_def complete_def isCompletedToday_def updateStreak_def Let_def
      example_simps dayOf_def parseDay_def msPerDay_def)

lemma completedDaily_created: "createdAt completedDaily = 0"
  by (simp add: completedDaily_def complete_def isCompletedToday_def updateStreak_def Let_def
      example_simps dayOf_def parseDay_def msPerDay_def)

text \<open>
  Claim C8 at a current instant that is exactly a UTC midnight, in a zone of constant
  offset: the habit created at the start of day 0 and completed at the start of each of
  the days 0, 1 and 2, read at the start of day 2 with \<open>days = 2\<close>. The habit is three days old and has one record a day;
  the start of the period is the midnight of day 0, whose record passes
  \<open>completionDate >= startDate\<close>: three records are counted over two days and the rate
  is 150.
\<close>

theorem getCompletionRate_midnight:
  "createdAt completedDaily = 0 \<and>
   map date (completions completedDaily) = [0, 1, 2] \<and>
   getDaysSinceCreation (2 * msPerDay) completedDaily = 3 \<and>
   getCompletionRate (2 * msPerDay) 0 2 completedDaily = Num 150"
  by (simp add: getCompletionRate_def getDaysSinceCreation_def Let_def js_div_def
      completedDaily_records completedDaily_created onDay_def parseDay_def msPerDay_def)

section \<open>Loading from storage\<close>

lemma loadEntry_throws:
  "(\<exists>err. loadEntry now fresh e = Inl err) \<longleftrightarrow> e = NotIterable \<or> (\<exists>k. e = PairOf k Nullish)"
  by (cases "(now, fresh, e)" rule: loadEntry.cases) auto

lemma mapEntries_throws:
  "(\<exists>err. mapEntries now fresh es = Inl err) \<longleftrightarrow>
     (\<exists>e \<in> set es. e = NotIterable \<or> (\<exists>k. e = PairOf k Nullish))"
proof (induction es)
  case Nil
  then show ?case by simp
next
  case (Cons e es)
  show ?case
  proof (cases "loadEntry now fresh e")
    case (Inl err)
    then have "e = NotIterable \<or> (\<exists>k. e = PairOf k Nullish)"
      using loadEntry_throws[of now fresh e] by blast
    then show ?thesis using Inl by auto
  next
    case (Inr p)
    then have "\<not> (e = NotIterable \<or> (\<exists>k. e = PairOf k Nullish))"
      using loadEntry_throws[of now fresh e] by auto
    then show ?thesis using Inr Cons.IH by (auto split: sum.splits)
  qed
qed

lemma loadHabits_throws:
  "fst (loadHabits now fresh hf t) = Some err \<Longrightarrow> snd (loadHabits now fresh hf t) = t"
  by (auto simp: loadHabits_def split: habitsField.splits sum.splits)

lemma loadHabits_categories:
  "categories (snd (loadHabits now fresh hf t)) = categories t"
  by (auto simp: loadHabits_def split: habitsField.splits sum.splits)

lemma loadCategories_throws:
  "fst (loadCategories cf t) = Some err \<Longrightarrow> snd (loadCategories cf t) = t"
  by (auto simp: loadCategories_def split: categoriesField.splits)

lemma loadTry_throws_categories:
  "fst (loadTry now fresh it t) = Some err \<Longrightarrow> categories (snd (loadTry now fresh it t)) = categories t"
proof (cases it)
  case (Json p)
  assume thr: "fst (loadTry now fresh it t) = Some err"
  show ?thesis
  proof (cases p)
    case RootNull
    then show ?thesis using Json by (simp add: loadTry_def)
  next
    case (Root hf cf)
    obtain r t1 where h: "loadHabits now fresh hf t = (r, t1)" by (cases "loadHabits now fresh hf t")
    have c1: "categories t1 = categories t" using loadHabits_categories[of now fresh hf t] h by simp
    show ?thesis
    proof (cases r)
      case None
      then have eq: "loadTry now fresh it t = loadCategories cf t1"
        using Json Root h by (simp add: loadTry_def)
      then have "snd (loadCategories cf t1) = t1" using thr loadCategories_throws[of cf t1 err] by simp
      then show ?thesis using eq c1 by simp
    next
      case (Some e)
      then show ?thesis using Json Root h c1 by (simp add: loadTry_def)
    qed
  qed
qed (simp_all add: loadTry_def)

lemma loadTry_throws_iff:
  "(\<exists>err. fst (loadTry now fresh it t) = Some err) \<longleftrightarrow>
     it = Garbage \<or> it = Json RootNull \<or>
     (\<exists>cf. it = Json (Root HabitsNoMap cf)) \<or>
     (\<exists>es cf. it = Json (Root (HabitsArray es) cf) \<and>
        (\<exists>e \<in> set es. e = NotIterable \<or> (\<exists>k. e = PairOf k Nullish))) \<or>
     (\<exists>hf. it = Json (Root hf CategoriesNotIterable))"
proof (cases it)
  case NoItem
  then show ?thesis by (simp add: loadTry_def)
next
  case Garbage
  then show ?thesis by (simp add: loadTry_def)
next
  case (Json p)
  show ?thesis
  proof (cases p)
    case RootNull
    then show ?thesis using Json by (simp add: loadTry_def)
  next
    case (Root hf cf)
    show ?thesis
    proof (cases hf)
      case HabitsFalsy
      then show ?thesis using Json Root
        by (cases cf) (simp_all add: loadTry_def loadHabits_def loadCategories_def)
    next
      case HabitsNoMap
      then show ?thesis using Json Root by (simp add: loadTry_def loadHabits_def)
    next
      case (HabitsArray es)
      show ?thesis
      proof (cases "mapEntries now fresh es")
        case (Inl err)
        then have "\<exists>e \<in> set es. e = NotIterable \<or> (\<exists>k. e = PairOf k Nullish)"
          using mapEntries_throws[of now fresh es] by blast
        then show ?thesis using Json Root HabitsArray Inl
          by (simp add: loadTry_def loadHabits_def)
      next
        case (Inr ps)
        then have "\<not> (\<exists>e \<in> set es. e = NotIterable \<or> (\<exists>k. e = PairOf k Nullish))"
          using mapEntries_throws[of now fresh es] by auto
        then show ?thesis using Json Root HabitsArray Inr
          by (cases cf) (simp_all add: loadTry_def loadHabits_def loadCategories_def)
      qed
    qed
  qed
qed

text \<open>
  Claim C6, as amended. Whenever the \<open>try\<close> block of \<open>loadFromStorage\<close> throws, the
  tracker that the constructor returns has no habit and the seed categories, and the
  constructor itself returns normally. The block throws exactly on a text that
  \<open>JSON.parse\<close> rejects, on a \<open>null\<close> root, on a truthy \<open>habits\<close> that is not an array,
  on an entry of \<open>habits\<close> that is not iterable or whose habit record is \<open>null\<close> or
  missing, and on a truthy \<open>categories\<close> that is not iterable.
\<close>

theorem load_recovers:
  "(fst (loadTry now fresh it emptyTracker) \<noteq> None \<longrightarrow>
      new_HabitTracker now fresh it = emptyTracker) \<and>
   (fst (loadTry now fresh it emptyTracker) \<noteq> None \<longleftrightarrow>
      it = Garbage \<or> it = Json RootNull \<or>
      (\<exists>cf. it = Json (Root HabitsNoMap cf)) \<or>
      (\<exists>es cf. it = Json (Root (HabitsArray es) cf) \<and>
         (\<exists>e \<in> set es. e = NotIterable \<or> (\<exists>k. e = PairOf k Nullish))) \<or>
      (\<exists>hf. it = Json (Root hf CategoriesNotIterable)))"
proof
  show "fst (loadTry now fresh it emptyTracker) \<noteq> None \<longrightarrow>
          new_HabitTracker now fresh it = emptyTracker"
  proof
    assume "fst (loadTry now fresh it emptyTracker) \<noteq> None"
    then obtain err where e: "fst (loadTry now fresh it emptyTracker) = Some err" by auto
    obtain t1 where t1: "loadTry now fresh it emptyTracker = (Some err, t1)"
      using e by (cases "loadTry now fresh it emptyTracker") auto
    have "categories t1 = seedCategories"
      using loadTry_throws_categories[OF e] t1 by (simp add: emptyTracker_def)
    then have "t1\<lparr>habits := []\<rparr> = emptyTracker" by (simp add: emptyTracker_def)
    then show "new_HabitTracker now fresh it = emptyTracker"
      using t1 by (simp add: new_HabitTracker_def loadFromStorage_def emptyTracker_def)
  qed
  show "fst (loadTry now fresh it emptyTracker) \<noteq> None \<longleftrightarrow>
      it = Garbage \<or> it = Json RootNull \<or>
      (\<exists>cf. it = Json (Root HabitsNoMap cf)) \<or>
      (\<exists>es cf. it = Json (Root (HabitsArray es) cf) \<and>
         (\<exists>e \<in> set es. e = NotIterable \<or> (\<exists>k. e = PairOf k Nullish))) \<or>
      (\<exists>hf. it = Json (Root hf CategoriesNotIterable))"
    using loadTry_throws_iff[of now fresh it emptyTracker] by auto
qed

text \<open>
  C6 as stated fails on stored data of the wrong structure on which nothing throws:
  \<open>{"categories":"abc"}\<close> loads the three categories \<open>a\<close>, \<open>b\<close>, \<open>c\<close> in place of the
  seed categories, and \<open>{"habits":[["k",5]],"categories":[]}\<close> loads one habit, built
  from defaults, under the key \<open>k\<close>.
\<close>

theorem load_recovers_counterexample:
  "\<not> structurallyValid (Json (Root HabitsFalsy (CategoriesString ''abc''))) \<and>
   categories (new_HabitTracker 0 ''x'' (Json (Root HabitsFalsy (CategoriesString ''abc''))))
     = [''a'', ''b'', ''c''] \<and>
   seedCategories \<noteq> [''a'', ''b'', ''c''] \<and>
   \<not> structurallyValid (Json (Root (HabitsArray [PairOf ''k'' Primitive]) (CategoriesArray []))) \<and>
   map fst (habits (new_HabitTracker 0 ''x''
      (Json (Root (HabitsArray [PairOf ''k'' Primitive]) (CategoriesArray []))))) = [''k'']"
  by (simp add: structurallyValid_def new_HabitTracker_def loadFromStorage_def loadTry_def
      loadHabits_def loadCategories_def new_Set_def set_add_def new_Map_def emptyTracker_def
      seedCategories_def)

text \<open>
  The amended C6 on \<open>{"habits":[["k",5],7],"categories":["mine"]}\<close>: the second entry
  throws, and the tracker is the empty one.
\<close>

theorem load_recovers_witness:
  "fst (loadTry 0 ''x'' (Json (Root (HabitsArray [PairOf ''k'' Primitive, NotIterable]) (CategoriesArray [''mine''])))
        emptyTracker) \<noteq> None \<and>
   new_HabitTracker 0 ''x'' (Json (Root (HabitsArray [PairOf ''k'' Primitive, NotIterable]) (CategoriesArray [''mine''])))
     = emptyTracker"
proof -
  have t: "fst (loadTry 0 ''x'' (Json (Root (HabitsArray [PairOf ''k'' Primitive, NotIterable]) (CategoriesArray [''mine''])))
        emptyTracker) \<noteq> None"
    by (simp add: loadTry_def loadHabits_def)
  then show ?thesis
    using load_recovers[of 0 "''x''" "Json (Root (HabitsArray [PairOf ''k'' Primitive, NotIterable]) (CategoriesArray [''mine'']))"]
    by blast
qed

section \<open>Completing a habit through the tracker\<close>

lemma map_set_same: "map_of m k = Some v \<Longrightarrow> map_set k v m = m"
  by (induction m) (auto split: if_splits)

lemma map_of_map_set: "map_of (map_set k v m) k = Some v"
  by (induction m) auto

lemma map_set_new: "k \<notin> fst ` set m \<Longrightarrow> map_set k v m = m @ [(k, v)]"
  by (induction m) auto

lemma map_set_keys: "map_of m k = Some v' \<Longrightarrow> map fst (map_set k v m) = map fst m"
  by (induction m) (auto split: if_splits)

lemma map_set_entries: "(k', v') \<in> set (map_set k v m) \<Longrightarrow> v' = v \<or> (k', v') \<in> set m"
  by (induction m) (auto split: if_splits)

lemma map_set_values: "snd ` set (map_set k v m) \<subseteq> insert v (snd ` set m)"
  using map_set_entries[of _ _ k v m] by force

lemma new_Map_append:
  "distinct (map fst (acc @ xs)) \<Longrightarrow> foldl (\<lambda>m (k, v). map_set k v m) acc xs = acc @ xs"
proof (induction xs arbitrary: acc)
  case Nil
  then show ?case by simp
next
  case (Cons x xs)
  obtain k v where x: "x = (k, v)" by (cases x)
  have "k \<notin> fst ` set acc" using Cons.prems x by auto
  then have "map_set k v acc = acc @ [(k, v)]" by (rule map_set_new)
  moreover have "distinct (map fst ((acc @ [(k, v)]) @ xs))" using Cons.prems x by simp
  ultimately show ?case using Cons.IH[of "acc @ [(k, v)]"] x by simp
qed

lemma new_Map_distinct: "distinct (map fst xs) \<Longrightarrow> new_Map xs = xs"
  using new_Map_append[of "[]" xs] by (simp add: new_Map_def)

lemma mapEntries_saved:
  "\<forall>h \<in> snd ` set hs. id' h \<noteq> [] \<Longrightarrow>
     mapEntries now fresh (map (\<lambda>(k, h). PairOf k (Object (toJSON h))) hs) = Inr hs"
proof (induction hs)
  case Nil
  then show ?case by simp
next
  case (Cons x hs)
  obtain k h where x: "x = (k, h)" by (cases x)
  have "id' h \<noteq> []" using Cons.prems x by simp
  then have "fromJSON now fresh (toJSON h) = h" by (rule fromJSON_toJSON)
  moreover have "mapEntries now fresh (map (\<lambda>(k, h). PairOf k (Object (toJSON h))) hs) = Inr hs"
    using Cons by simp
  ultimately show ?case using x by simp
qed

lemma load_saved:
  assumes "distinct (map fst hs)" "\<forall>h \<in> snd ` set hs. id' h \<noteq> []"
  shows "habits (new_HabitTracker now fresh
           (Json (Root (HabitsArray (map (\<lambda>(k, h). PairOf k (Object (toJSON h))) hs))
                       (CategoriesArray cs)))) = hs"
  using mapEntries_saved[OF assms(2), of now fresh] new_Map_distinct[OF assms(1)]
  by (simp add: new_HabitTracker_def loadFromStorage_def loadTry_def loadHabits_def
      loadCategories_def)

lemma complete_rejected_iff: "fst (complete now d h) \<longleftrightarrow> \<not> isCompletedToday d h"
  by (simp add: complete_def Let_def)

lemma completeHabit_unknown:
  "getHabit i t = None \<Longrightarrow> completeHabit accepted now i d (t, s) = (Inr False, t, s)"
  by (simp add: completeHabit_def)

lemma completeHabit_already:
  assumes "getHabit i t = Some habit" "isCompletedToday d habit"
  shows "completeHabit accepted now i d (t, s) = (Inr False, t, s)"
proof -
  have "map_set i habit (habits t) = habits t"
    using assms(1) by (simp add: getHabit_def map_set_same)
  then show ?thesis using assms by (simp add: completeHabit_def complete_rejected Let_def)
qed

lemma completeHabit_done:
  assumes "getHabit i t = Some habit" "\<not> isCompletedToday d habit"
  shows "completeHabit accepted now i d (t, s) =
           (if accepted
            then (Inr True, t\<lparr>habits := map_set i (snd (complete now d habit)) (habits t)\<rparr>,
                  Json (Root (HabitsArray (map (\<lambda>(k, h). PairOf k (Object (toJSON h)))
                                (map_set i (snd (complete now d habit)) (habits t))))
                             (CategoriesArray (categories t))))
            else (Inl QuotaExceededError,
                  t\<lparr>habits := map_set i (snd (complete now d habit)) (habits t)\<rparr>, s))"
proof -
  obtain ok habit' where c: "complete now d habit = (ok, habit')" by (cases "complete now d habit")
  then have "ok" using complete_rejected_iff[of now d habit] assms(2) by simp
  then show ?thesis using assms(1) c by (simp add: completeHabit_def saveToStorage_def Let_def)
qed

lemma completed_ids:
  assumes g: "getHabit i t = Some habit" and ids: "\<forall>h \<in> snd ` set (habits t). id' h \<noteq> []"
  shows "\<forall>h \<in> snd ` set (map_set i (snd (complete now d habit)) (habits t)). id' h \<noteq> []"
proof
  fix h assume "h \<in> snd ` set (map_set i (snd (complete now d habit)) (habits t))"
  then have "h = snd (complete now d habit) \<or> h \<in> snd ` set (habits t)"
    using map_set_values[of i "snd (complete now d habit)" "habits t"] by auto
  moreover have "habit \<in> snd ` set (habits t)"
    using g map_of_SomeD[of "habits t" i habit] by (force simp: getHabit_def)
  ultimately show "id' h \<noteq> []" using ids by (auto simp: complete_id)
qed

text \<open>
  Claim C7, where the storage takes the write. \<open>completeHabit(id, date)\<close> returns true
  exactly when a habit with that id exists and its \<open>complete(date)\<close> returns true. It
  then holds the completed habit under the id, and the storage slot holds the collection:
  the id and the \<open>toJSON\<close> record of every habit of the updated \<open>Map\<close>, in its order, and
  the categories; a tracker constructed from that slot has the same habits under the
  same ids as the updated tracker (the ids of a \<open>Map\<close> are distinct, and every habit has
  the non-empty id its constructor gave it). When the id is unknown, and when the habit
  already has a record for that calendar day, it returns false and neither the tracker
  nor the storage slot changes, whatever the storage would do with a write.
\<close>

theorem completeHabit_result:
  "(accepted \<longrightarrow>
      (fst (completeHabit accepted now i d (t, s)) = Inr True \<longleftrightarrow>
         (\<exists>habit. getHabit i t = Some habit \<and> fst (complete now d habit)))) \<and>
   (\<forall>habit. accepted \<and> getHabit i t = Some habit \<and> fst (complete now d habit) \<longrightarrow>
      completeHabit accepted now i d (t, s) =
        (Inr True, t\<lparr>habits := map_set i (snd (complete now d habit)) (habits t)\<rparr>,
         Json (Root (HabitsArray (map (\<lambda>(k, h). PairOf k (Object (toJSON h)))
                       (map_set i (snd (complete now d habit)) (habits t))))
                    (CategoriesArray (categories t)))) \<and>
      getHabit i (fst (snd (completeHabit accepted now i d (t, s))))
        = Some (snd (complete now d habit)) \<and>
      (distinct (map fst (habits t)) \<and> (\<forall>h \<in> snd ` set (habits t). id' h \<noteq> []) \<longrightarrow>
         habits (new_HabitTracker now' fresh (snd (snd (completeHabit accepted now i d (t, s)))))
           = map_set i (snd (complete now d habit)) (habits t))) \<and>
   (getHabit i t = None \<longrightarrow> completeHabit accepted now i d (t, s) = (Inr False, t, s)) \<and>
   (\<forall>habit. getHabit i t = Some habit \<and> isCompletedToday d habit \<longrightarrow>
      completeHabit accepted now i d (t, s) = (Inr False, t, s))"
proof (intro conjI allI impI)
  assume acc: accepted
  show "fst (completeHabit accepted now i d (t, s)) = Inr True \<longleftrightarrow>
          (\<exists>habit. getHabit i t = Some habit \<and> fst (complete now d habit))"
  proof (cases "getHabit i t")
    case None
    then show ?thesis by (simp add: completeHabit_unknown)
  next
    case (Some habit)
    then show ?thesis
      using completeHabit_already[OF Some, of d accepted now s]
        completeHabit_done[OF Some, of d accepted now s] acc
      by (cases "isCompletedToday d habit") (simp_all add: complete_rejected_iff)
  qed
next
  fix habit
  assume a: "accepted \<and> getHabit i t = Some habit \<and> fst (complete now d habit)"
  then have n: "\<not> isCompletedToday d habit" by (simp add: complete_rejected_iff)
  show e: "completeHabit accepted now i d (t, s) =
        (Inr True, t\<lparr>habits := map_set i (snd (complete now d habit)) (habits t)\<rparr>,
         Json (Root (HabitsArray (map (\<lambda>(k, h). PairOf k (Object (toJSON h)))
                       (map_set i (snd (complete now d habit)) (habits t))))
                    (CategoriesArray (categories t))))"
    using completeHabit_done[of i t habit d accepted now s] a n by simp
  show "getHabit i (fst (snd (completeHabit accepted now i d (t, s))))
        = Some (snd (complete now d habit))"
    unfolding e by (simp add: getHabit_def map_of_map_set)
  show "habits (new_HabitTracker now' fresh (snd (snd (completeHabit accepted now i d (t, s)))))
           = map_set i (snd (complete now d habit)) (habits t)"
    if inv: "distinct (map fst (habits t)) \<and> (\<forall>h \<in> snd ` set (habits t). id' h \<noteq> [])"
  proof -
    have g: "getHabit i t = Some habit" using a by simp
    have "distinct (map fst (map_set i (snd (complete now d habit)) (habits t)))"
      using inv g by (simp add: getHabit_def map_set_keys)
    moreover have "\<forall>h \<in> snd ` set (map_set i (snd (complete now d habit)) (habits t)). id' h \<noteq> []"
      using completed_ids[OF g] inv by blast
    ultimately show ?thesis unfolding e snd_conv by (rule load_saved)
  qed
next
  assume "getHabit i t = None"
  then show "completeHabit accepted now i d (t, s) = (Inr False, t, s)"
    by (rule completeHabit_unknown)
next
  fix habit assume "getHabit i t = Some habit \<and> isCompletedToday d habit"
  then show "completeHabit accepted now i d (t, s) = (Inr False, t, s)"
    using completeHabit_already by blast
qed

text \<open>
  Where the storage refuses the write, \<open>setItem\<close> throws after the habit was completed:
  the exception leaves \<open>completeHabit\<close>, the tracker holds the completed habit and the
  slot is as before.
\<close>

lemma completeHabit_refused:
  assumes "getHabit i t = Some habit" "fst (complete now d habit)"
  shows "completeHabit False now i d (t, s) =
           (Inl QuotaExceededError,
            t\<lparr>habits := map_set i (snd (complete now d habit)) (habits t)\<rparr>, s)"
  using completeHabit_done[OF assms(1), of d False now s] assms(2)
  by (simp add: complete_rejected_iff)

text \<open>
  C7 on the example tracker at day 10, with a storage that takes the write: habit \<open>b\<close>
  has no record and is completed, and the slot loads back to the updated habits; no
  habit has the id \<open>zz\<close>; habit \<open>a\<close> already has a record for day 10.
\<close>

theorem completeHabit_result_witness:
  "distinct (map fst (habits exampleTracker)) \<and>
   map (\<lambda>p. id' (snd p)) (habits exampleTracker) = [''a'', ''b'', ''c'', ''d''] \<and>
   getHabit ''b'' exampleTracker = Some (habitWith ''b'' True 0 2 []) \<and>
   fst (complete (10 * msPerDay + 5) (10 * msPerDay + 5) (habitWith ''b'' True 0 2 [])) \<and>
   fst (completeHabit True (10 * msPerDay + 5) ''b'' (10 * msPerDay + 5) (exampleTracker, NoItem))
     = Inr True \<and>
   habits (new_HabitTracker 0 ''x''
      (snd (snd (completeHabit True (10 * msPerDay + 5) ''b'' (10 * msPerDay + 5)
         (exampleTracker, NoItem)))))
     = map_set ''b'' (snd (complete (10 * msPerDay + 5) (10 * msPerDay + 5) (habitWith ''b'' True 0 2 [])))
         (habits exampleTracker) \<and>
   getHabit ''zz'' exampleTracker = None \<and>
   completeHabit True (10 * msPerDay + 5) ''zz'' (10 * msPerDay + 5) (exampleTracker, NoItem)
     = (Inr False, exampleTracker, NoItem) \<and>
   getHabit ''a'' exampleTracker = Some (habitWith ''a'' True 3 5 [onDay 10]) \<and>
   isCompletedToday (10 * msPerDay + 5) (habitWith ''a'' True 3 5 [onDay 10]) \<and>
   completeHabit True (10 * msPerDay + 5) ''a'' (10 * msPerDay + 5) (exampleTracker, NoItem)
     = (Inr False, exampleTracker, NoItem)"
proof -
  have d: "dayOf (10 * msPerDay + 5) = 10" by (simp add: dayOf_def msPerDay_def)
  have keys: "distinct (map fst (habits exampleTracker))" by (simp add: exampleTracker_def)
  have ids: "map (\<lambda>p. id' (snd p)) (habits exampleTracker) = [''a'', ''b'', ''c'', ''d'']"
    by (simp add: exampleTracker_def) (simp add: example_simps)
  have "\<forall>p \<in> set (habits exampleTracker). id' (snd p) \<noteq> []"
  proof
    fix p assume "p \<in> set (habits exampleTracker)"
    then have "id' (snd p) \<in> set (map (\<lambda>p. id' (snd p)) (habits exampleTracker))" by simp
    then show "id' (snd p) \<noteq> []" unfolding ids by auto
  qed
  then have idn: "\<forall>h \<in> snd ` set (habits exampleTracker). id' h \<noteq> []" by auto
  have gb: "getHabit ''b'' exampleTracker = Some (habitWith ''b'' True 0 2 [])"
    by (simp add: getHabit_def exampleTracker_def)
  have gz: "getHabit ''zz'' exampleTracker = None"
    by (simp add: getHabit_def exampleTracker_def)
  have ga: "getHabit ''a'' exampleTracker = Some (habitWith ''a'' True 3 5 [onDay 10])"
    by (simp add: getHabit_def exampleTracker_def)
  have cb: "completions (habitWith ''b'' True 0 2 []) = []" by (simp add: example_simps)
  have ca: "completions (habitWith ''a'' True 3 5 [onDay 10]) = [onDay 10]"
    by (simp add: example_simps)
  have nb: "\<not> isCompletedToday (10 * msPerDay + 5) (habitWith ''b'' True 0 2 [])"
    unfolding isCompletedToday_def cb by simp
  then have fb: "fst (complete (10 * msPerDay + 5) (10 * msPerDay + 5) (habitWith ''b'' True 0 2 []))"
    by (simp add: complete_rejected_iff)
  have ia: "isCompletedToday (10 * msPerDay + 5) (habitWith ''a'' True 3 5 [onDay 10])"
    unfolding isCompletedToday_def ca d by (simp add: onDay_def)
  note rb = completeHabit_result[of True "10 * msPerDay + 5" "''b''" "10 * msPerDay + 5"
      exampleTracker NoItem 0 "''x''"]
  note rz = completeHabit_result[of True "10 * msPerDay + 5" "''zz''" "10 * msPerDay + 5"
      exampleTracker NoItem]
  note ra = completeHabit_result[of True "10 * msPerDay + 5" "''a''" "10 * msPerDay + 5"
      exampleTracker NoItem]
  have r1: "fst (completeHabit True (10 * msPerDay + 5) ''b'' (10 * msPerDay + 5) (exampleTracker, NoItem))
     = Inr True"
    using rb gb fb by blast
  have r2: "habits (new_HabitTracker 0 ''x''
      (snd (snd (completeHabit True (10 * msPerDay + 5) ''b'' (10 * msPerDay + 5)
         (exampleTracker, NoItem)))))
     = map_set ''b'' (snd (complete (10 * msPerDay + 5) (10 * msPerDay + 5) (habitWith ''b'' True 0 2 [])))
         (habits exampleTracker)"
    using rb gb fb keys idn by blast
  have r3: "completeHabit True (10 * msPerDay + 5) ''zz'' (10 * msPerDay + 5) (exampleTracker, NoItem)
     = (Inr False, exampleTracker, NoItem)"
    using rz gz by blast
  have r4: "completeHabit True (10 * msPerDay + 5) ''a'' (10 * msPerDay + 5) (exampleTracker, NoItem)
     = (Inr False, exampleTracker, NoItem)"
    using ra ga ia by blast
  show ?thesis by (intro conjI keys ids gb fb r1 r2 gz r3 ga ia r4)
qed

section \<open>Overall statistics\<close>

lemma sum_streaks: "foldl (\<lambda>sum h. sum + streak h) a hs = a + sum_list (map streak hs)"
  by (induction hs arbitrary: a) auto

lemma fold_max_0: "fold max xs (0::int) = Max (insert 0 (set xs))"
proof -
  have "fold max xs 0 = Max (set (0 # xs))" by (simp only: Max.set_eq_fold)
  then show ?thesis by simp
qed

lemma Max_nonneg:
  fixes xs :: "int list"
  assumes "xs \<noteq> []" "\<forall>x \<in> set xs. 0 \<le> x"
  shows "Max (insert 0 (set xs)) = Max (set xs)"
proof -
  obtain x where "x \<in> set xs" using assms(1) by (cases xs) auto
  then have "0 \<le> x" "x \<le> Max (set xs)" using assms(2) by auto
  then have "max 0 (Max (set xs)) = Max (set xs)" by simp
  then show ?thesis using assms(1) by simp
qed

text \<open>
  Claim C9. \<open>getOverallStats()\<close> aggregates over the active habits and no others:
  \<open>totalHabits\<close> is their number, \<open>completedToday\<close> the number of them completed today,
  \<open>completionRateToday\<close> is \<open>completedToday / totalHabits * 100\<close>, \<open>averageStreak\<close> the
  mean of their \<open>streak\<close> values, and both are \<open>0\<close> when no habit is active;
  \<open>longestStreak\<close> is the maximum of \<open>0\<close> and their \<open>longestStreak\<close> values, which is
  the maximum of those values (\<open>0\<close> when no habit is active) since, as the data model
  has it, none of them is negative.
\<close>

theorem getOverallStats_aggregate:
  "getActiveHabits t = filter isActive (map snd (habits t)) \<and>
   totalHabits (getOverallStats now t) = length (getActiveHabits t) \<and>
   completedToday (getOverallStats now t)
     = length (filter (isCompletedToday now) (getActiveHabits t)) \<and>
   completionRateToday (getOverallStats now t)
     = (if getActiveHabits t = [] then 0
        else real (completedToday (getOverallStats now t))
               / real (totalHabits (getOverallStats now t)) * 100) \<and>
   averageStreak (getOverallStats now t)
     = (if getActiveHabits t = [] then 0
        else real_of_int (sum_list (map streak (getActiveHabits t)))
               / real (length (getActiveHabits t))) \<and>
   longestStreakOverall (getOverallStats now t)
     = Max (insert 0 (set (map longestStreak (getActiveHabits t)))) \<and>
   ((\<forall>h \<in> set (getActiveHabits t). 0 \<le> longestStreak h) \<longrightarrow>
      longestStreakOverall (getOverallStats now t)
        = (if getActiveHabits t = [] then 0
           else Max (set (map longestStreak (getActiveHabits t)))))"
proof (intro conjI impI)
  show "getActiveHabits t = filter isActive (map snd (habits t))"
    by (simp add: getActiveHabits_def getAllHabits_def)
  show "totalHabits (getOverallStats now t) = length (getActiveHabits t)"
    by (simp add: getOverallStats_def Let_def)
  show "completedToday (getOverallStats now t)
     = length (filter (isCompletedToday now) (getActiveHabits t))"
    by (simp add: getOverallStats_def Let_def)
  show "completionRateToday (getOverallStats now t)
     = (if getActiveHabits t = [] then 0
        else real (completedToday (getOverallStats now t))
               / real (totalHabits (getOverallStats now t)) * 100)"
    by (simp add: getOverallStats_def Let_def)
  show "averageStreak (getOverallStats now t)
     = (if getActiveHabits t = [] then 0
        else real_of_int (sum_list (map streak (getActiveHabits t)))
               / real (length (getActiveHabits t)))"
    by (simp add: getOverallStats_def Let_def sum_streaks)
  show m: "longestStreakOverall (getOverallStats now t)
     = Max (insert 0 (set (map longestStreak (getActiveHabits t))))"
    by (simp add: getOverallStats_def Let_def fold_max_0)
  show "longestStreakOverall (getOverallStats now t)
        = (if getActiveHabits t = [] then 0
           else Max (set (map longestStreak (getActiveHabits t))))"
    if nn: "\<forall>h \<in> set (getActiveHabits t). 0 \<le> longestStreak h"
  proof (cases "getActiveHabits t = []")
    case True
    then show ?thesis using m by simp
  next
    case False
    have "Max (insert 0 (set (map longestStreak (getActiveHabits t))))
          = Max (set (map longestStreak (getActiveHabits t)))"
      using False nn by (intro Max_nonneg) auto
    then show ?thesis using m False by simp
  qed
qed

text \<open>
  C9 on the example tracker at day 10: three active habits with streaks 3, 0 and 7, two
  of them completed today, and an inactive habit that no figure counts.
\<close>

theorem getOverallStats_aggregate_witness:
  "map longestStreak (getActiveHabits exampleTracker) = [5, 2, 9] \<and>
   totalHabits (getOverallStats (10 * msPerDay + 5) exampleTracker) = 3 \<and>
   completedToday (getOverallStats (10 * msPerDay + 5) exampleTracker) = 2 \<and>
   completionRateToday (getOverallStats (10 * msPerDay + 5) exampleTracker) = 2 / 3 * 100 \<and>
   averageStreak (getOverallStats (10 * msPerDay + 5) exampleTracker) = (3 + 0 + 7) / 3 \<and>
   longestStreakOverall (getOverallStats (10 * msPerDay + 5) exampleTracker) = 9"
proof -
  have d: "dayOf (10 * msPerDay + 5) = 10" by (simp add: dayOf_def msPerDay_def)
  have act: "getActiveHabits exampleTracker =
      [habitWith ''a'' True 3 5 [onDay 10], habitWith ''b'' True 0 2 [],
       habitWith ''d'' True 7 9 [onDay 9, onDay 10]]"
    by (simp add: getActiveHabits_def getAllHabits_def exampleTracker_def)
       (simp add: example_simps)
  have nn: "\<forall>h \<in> set (getActiveHabits exampleTracker). 0 \<le> longestStreak h"
    unfolding act by (simp add: example_simps)
  have today: "filter (isCompletedToday (10 * msPerDay + 5)) (getActiveHabits exampleTracker) =
      [habitWith ''a'' True 3 5 [onDay 10], habitWith ''d'' True 7 9 [onDay 9, onDay 10]]"
    unfolding act isCompletedToday_def d by (simp add: example_simps)
  have streaks: "map streak (getActiveHabits exampleTracker) = [3, 0, 7]"
    unfolding act by (simp add: example_simps)
  have longest: "map longestStreak (getActiveHabits exampleTracker) = [5, 2, 9]"
    unfolding act by (simp add: example_simps)
  have len: "length (getActiveHabits exampleTracker) = 3" unfolding act by simp
  have ne: "getActiveHabits exampleTracker \<noteq> []" unfolding act by simp
  note agg = getOverallStats_aggregate[of exampleTracker "10 * msPerDay + 5"]
  have r1: "totalHabits (getOverallStats (10 * msPerDay + 5) exampleTracker) = 3"
    using agg len by simp
  have r2: "completedToday (getOverallStats (10 * msPerDay + 5) exampleTracker) = 2"
    using agg today by simp
  have r3: "completionRateToday (getOverallStats (10 * msPerDay + 5) exampleTracker) = 2 / 3 * 100"
    using agg ne r1 r2 by simp
  have r4: "averageStreak (getOverallStats (10 * msPerDay + 5) exampleTracker) = (3 + 0 + 7) / 3"
    using agg ne streaks len by simp
  have "longestStreakOverall (getOverallStats (10 * msPerDay + 5) exampleTracker)
        = (if getActiveHabits exampleTracker = [] then 0
           else Max (set (map longestStreak (getActiveHabits exampleTracker))))"
    using agg nn by blast
  then have r5: "longestStreakOverall (getOverallStats (10 * msPerDay + 5) exampleTracker) = 9"
    using ne unfolding longest by simp
  show ?thesis by (intro conjI longest r1 r2 r3 r4 r5)
qed

end
